theory Spec2Isabelle
  imports Complex_Main
begin

section \<open>JavaScript values used by the userscript\<close>

text \<open>
  A JavaScript Number is a double: a finite value, one of the two infinities, or NaN.
  A finite value is modelled as the real number it denotes; the sign of zero is not
  modelled. Comparison, \<open>Math.abs\<close>, \<open>Math.min\<close>, \<open>Math.max\<close> and the remainder are
  exact on doubles. A sum, difference, product or quotient is the exact result rounded
  to the nearest double, and a decimal literal denotes the double nearest to it.
\<close>

datatype jsnum = Num real | PInf | NInf | NaN

text \<open>
  Rounding to the nearest double, ties to the even significand. \<open>binaryExponent x\<close> is
  the \<open>e\<close> with \<open>2^e \<le> |x| < 2^(e+1)\<close>, found by halving or doubling; the last place of
  a double with that exponent has the weight \<open>2^(e-52)\<close>, and \<open>2^(-1074)\<close> for the
  subnormal doubles. A result of magnitude \<open>2^1024\<close> or more is an infinity.
\<close>

definition roundHalfEven :: "real \<Rightarrow> int" where
  "roundHalfEven x =
     (let f = \<lfloor>x\<rfloor>; r = x - of_int f
      in if r < 1 / 2 then f else if 1 / 2 < r then f + 1 else if even f then f else f + 1)"

function expUp :: "real \<Rightarrow> nat" where
  "expUp x = (if x < 2 then 0 else Suc (expUp (x / 2)))"
  by pat_completeness auto
termination
proof (relation "measure (\<lambda>x. nat \<lfloor>x\<rfloor>)")
  show "wf (measure (\<lambda>x. nat \<lfloor>x\<rfloor>))" by simp
next
  fix x :: real
  assume "\<not> x < 2"
  then have x: "2 \<le> x" by simp
  have "\<lfloor>x / 2\<rfloor> < \<lfloor>x\<rfloor>"
  proof -
    have "x / 2 + 1 \<le> x" using x by simp
    then have "\<lfloor>x / 2 + 1\<rfloor> \<le> \<lfloor>x\<rfloor>" by (rule floor_mono)
    then show ?thesis by simp
  qed
  moreover have "0 < \<lfloor>x\<rfloor>" using x by simp
  ultimately show "(x / 2, x) \<in> measure (\<lambda>x. nat \<lfloor>x\<rfloor>)"
    by simp
qed

function expDown :: "real \<Rightarrow> nat" where
  "expDown x = (if x \<le> 0 \<or> 1 \<le> x then 0 else Suc (expDown (2 * x)))"
  by pat_completeness auto
termination
proof (relation "measure (\<lambda>x. nat \<lceil>1 / x\<rceil>)")
  show "wf (measure (\<lambda>x. nat \<lceil>1 / x\<rceil>))" by simp
next
  fix x :: real
  assume "\<not> (x \<le> 0 \<or> 1 \<le> x)"
  then have x: "0 < x" "x < 1" by simp_all
  let ?y = "1 / x"
  have y: "1 < ?y" using x by simp
  have "\<lceil>?y / 2\<rceil> < \<lceil>?y\<rceil>"
  proof -
    have "2 \<le> \<lceil>?y\<rceil>" using y by linarith
    moreover have "?y / 2 \<le> of_int \<lceil>?y\<rceil> / 2" by (simp add: le_of_int_ceiling)
    then have "\<lceil>?y / 2\<rceil> \<le> \<lceil>of_int \<lceil>?y\<rceil> / (2::real)\<rceil>" by (rule ceiling_mono)
    moreover have "\<lceil>of_int \<lceil>?y\<rceil> / (2::real)\<rceil> < \<lceil>?y\<rceil>"
      using \<open>2 \<le> \<lceil>?y\<rceil>\<close> by linarith
    ultimately show ?thesis by linarith
  qed
  moreover have "0 < \<lceil>?y\<rceil>" using y by linarith
  ultimately have m: "nat \<lceil>?y / 2\<rceil> < nat \<lceil>?y\<rceil>" by linarith
  have e: "1 / (2 * x) = ?y / 2" by simp
  show "(2 * x, x) \<in> measure (\<lambda>x. nat \<lceil>1 / x\<rceil>)"
    unfolding in_measure e by (rule m)
qed

declare expUp.simps [simp del] expDown.simps [simp del]

definition binaryExponent :: "real \<Rightarrow> int" where
  "binaryExponent x = (if 1 \<le> \<bar>x\<bar> then int (expUp \<bar>x\<bar>) else - int (expDown \<bar>x\<bar>))"

definition pow2 :: "int \<Rightarrow> real" where
  "pow2 e = (if 0 \<le> e then 2 ^ nat e else 1 / 2 ^ nat (- e))"

definition roundDouble :: "real \<Rightarrow> jsnum" where
  "roundDouble x =
     (if x = 0 then Num 0
      else
        (let u = pow2 (max (binaryExponent x - 52) (- 1074));
             y = u * of_int (roundHalfEven (x / u))
         in if 2 ^ 1024 \<le> y then PInf else if y \<le> - (2 ^ 1024) then NInf else Num y))"

definition isNaN :: "jsnum \<Rightarrow> bool" where
  "isNaN x = (x = NaN)"

text \<open>\<open>Math.min\<close> and \<open>Math.max\<close> on two arguments: NaN is contagious.\<close>

fun mathMin :: "jsnum \<Rightarrow> jsnum \<Rightarrow> jsnum" where
  "mathMin NaN _ = NaN"
| "mathMin _ NaN = NaN"
| "mathMin NInf _ = NInf"
| "mathMin _ NInf = NInf"
| "mathMin PInf y = y"
| "mathMin x PInf = x"
| "mathMin (Num a) (Num b) = Num (min a b)"

fun mathMax :: "jsnum \<Rightarrow> jsnum \<Rightarrow> jsnum" where
  "mathMax NaN _ = NaN"
| "mathMax _ NaN = NaN"
| "mathMax PInf _ = PInf"
| "mathMax _ PInf = PInf"
| "mathMax NInf y = y"
| "mathMax x NInf = x"
| "mathMax (Num a) (Num b) = Num (max a b)"

text \<open>\<open>Math.abs\<close>, subtraction and \<open>\<le>\<close> on Numbers (any comparison with NaN is false).\<close>

fun mathAbs :: "jsnum \<Rightarrow> jsnum" where
  "mathAbs (Num a) = Num \<bar>a\<bar>"
| "mathAbs PInf = PInf"
| "mathAbs NInf = PInf"
| "mathAbs NaN = NaN"

fun jsSub :: "jsnum \<Rightarrow> jsnum \<Rightarrow> jsnum" where
  "jsSub NaN _ = NaN"
| "jsSub _ NaN = NaN"
| "jsSub (Num a) (Num b) = roundDouble (a - b)"
| "jsSub PInf PInf = NaN"
| "jsSub NInf NInf = NaN"
| "jsSub PInf _ = PInf"
| "jsSub NInf _ = NInf"
| "jsSub (Num a) PInf = NInf"
| "jsSub (Num a) NInf = PInf"

fun jsLe :: "jsnum \<Rightarrow> jsnum \<Rightarrow> bool" where
  "jsLe NaN _ = False"
| "jsLe _ NaN = False"
| "jsLe NInf _ = True"
| "jsLe _ PInf = True"
| "jsLe PInf _ = False"
| "jsLe _ NInf = False"
| "jsLe (Num a) (Num b) = (a \<le> b)"

text \<open>
  A value that is \<open>null\<close>/\<open>undefined\<close> or a string is an \<open>option\<close>; it is truthy when
  it is a non-empty string.
\<close>

definition truthy :: "string option \<Rightarrow> bool" where
  "truthy v = (case v of None \<Rightarrow> False | Some s \<Rightarrow> s \<noteq> [])"

section \<open>Coordinates\<close>

record coord =
  lat :: jsnum
  lng :: jsnum

text \<open>
  \<open>sanitizeCoordinates(lat, lng)\<close>. Its first two statements replace each argument by
  \<open>parseFloat\<close> of it; the arguments of the model are those parsed Numbers
  (\<open>parseFloat\<close> returns a Number it is given unchanged, and NaN for text that does not
  start with a number).
\<close>

definition sanitizeCoordinates :: "jsnum \<Rightarrow> jsnum \<Rightarrow> coord option" where
  "sanitizeCoordinates lat0 lng0 =
     (if isNaN lat0 \<or> isNaN lng0 then None
      else Some \<lparr>lat = mathMax (Num (- 90)) (mathMin (Num 90) lat0),
                 lng = mathMax (Num (- 180)) (mathMin (Num 180) lng0)\<rparr>)"

section \<open>Panorama ids\<close>

text \<open>
  Strings are lists of characters with the codes \<open>0..255\<close>; two hexadecimal digits
  never denote more. \<open>hexDigitValue\<close> is the digit value \<open>parseInt(_, 16)\<close> gives a
  character, when it is one of \<open>0-9\<close>, \<open>a-f\<close>, \<open>A-F\<close>.
\<close>

definition hexDigitValue :: "char \<Rightarrow> nat option" where
  "hexDigitValue c =
     (let n = (of_char c :: nat) in
      if 48 \<le> n \<and> n \<le> 57 then Some (n - 48)
      else if 97 \<le> n \<and> n \<le> 102 then Some (n - 87)
      else if 65 \<le> n \<and> n \<le> 70 then Some (n - 55)
      else None)"

text \<open>The test \<open>/^[0-9a-fA-F]+$/.test(s)\<close>.\<close>

definition isHexString :: "string \<Rightarrow> bool" where
  "isHexString s = (s \<noteq> [] \<and> list_all (\<lambda>c. hexDigitValue c \<noteq> None) s)"

text \<open>
  \<open>parseInt(seq, 16)\<close>: the value of the longest prefix of hexadecimal digits, NaN
  (\<open>None\<close>) when that prefix is empty.
\<close>

fun parseHexFrom :: "nat \<Rightarrow> string \<Rightarrow> nat" where
  "parseHexFrom acc [] = acc"
| "parseHexFrom acc (c # cs) =
     (case hexDigitValue c of
        None \<Rightarrow> acc
      | Some d \<Rightarrow> parseHexFrom (16 * acc + d) cs)"

definition parseInt16 :: "string \<Rightarrow> nat option" where
  "parseInt16 seq =
     (case seq of
        [] \<Rightarrow> None
      | c # cs \<Rightarrow> (case hexDigitValue c of
                     None \<Rightarrow> None
                   | Some d \<Rightarrow> Some (parseHexFrom d cs)))"

text \<open>\<open>String.fromCharCode\<close>: NaN is converted to code unit 0.\<close>

definition fromCharCode :: "nat option \<Rightarrow> char" where
  "fromCharCode v = (case v of None \<Rightarrow> char_of (0::nat) | Some n \<Rightarrow> char_of n)"

text \<open>\<open>s.substring(i, j)\<close> for \<open>i \<le> j\<close>.\<close>

definition substring :: "string \<Rightarrow> nat \<Rightarrow> nat \<Rightarrow> string" where
  "substring s i j = take (j - i) (drop i s)"

text \<open>
  The loop of \<open>panoIdDecoder\<close>: \<open>i\<close> runs over the even indices, the \<open>break\<close> leaves a
  last single digit undecoded.
\<close>

function panoIdLoop :: "string \<Rightarrow> nat \<Rightarrow> string \<Rightarrow> string" where
  "panoIdLoop s i gsvPanoId =
     (if i < length s then
        (if i + 1 \<ge> length s then gsvPanoId
         else panoIdLoop s (i + 2)
                (gsvPanoId @ [fromCharCode (parseInt16 (substring s i (i + 2)))]))
      else gsvPanoId)"
  by pat_completeness auto
termination
  by (relation "measure (\<lambda>(s, i, acc). length s - i)") auto

declare panoIdLoop.simps [simp del]

text \<open>
  \<open>panoIdDecoder(geoguessrPanoId)\<close>; \<open>None\<close> is a \<open>null\<close> or \<open>undefined\<close> argument. No
  operation of the \<open>try\<close> block can throw, so its \<open>catch\<close> has no branch here.
\<close>

definition panoIdDecoder :: "string option \<Rightarrow> string" where
  "panoIdDecoder geoguessrPanoId =
     (case geoguessrPanoId of
        None \<Rightarrow> []
      | Some s \<Rightarrow>
          if s = [] then []
          else if \<not> isHexString s then []
          else panoIdLoop s 0 [])"

section \<open>Round records and the game state\<close>

text \<open>
  The enrichment object \<open>additionalInfo\<close>; a field that the object lacks is \<open>None\<close>
  (the override table and the geocoder set all of them, the objects built from page
  text set only some).
\<close>

record enrichment =
  tld :: "string option"
  drivingSide :: "string option"
  languages :: "string list option"
  currency :: "string option"
  flagUrl :: "string option"
  continent :: "string option"
  capital :: "string option"

text \<open>
  A country fact (\<open>countryData\<close>, \<open>guessCountryData\<close>). Its \<open>details\<close> field, which no
  function reads, is left out.
\<close>

record countryFact =
  cd_country :: string
  countryCode :: "string option"
  cd_state :: "string option"
  city :: "string option"
  additionalInfo :: "enrichment option"

record clue =
  category :: string
  clue_text :: string

record coverageInfo =
  cov_type :: "string option"

record overview =
  region :: "string option"
  coverage :: "coverageInfo option"

text \<open>An entry of \<open>gameState.roundLocations\<close>.\<close>

record roundRecord =
  panoId :: "string option"
  location :: "coord option"
  heading :: "jsnum option"
  pitch :: "jsnum option"
  zoom :: "jsnum option"
  country :: "string option"
  countryData :: "countryFact option"
  guessLocation :: "coord option"
  guessCountry :: "string option"
  guessCountryData :: "countryFact option"
  score :: "jsnum option"
  missedClues :: "clue list option"
  locationOverview :: "overview option"
  cardCreated :: bool

text \<open>
  The fields of \<open>gameState\<close> that the modelled functions read or write. A field whose
  name a round record also has carries the prefix \<open>gs_\<close>. Records of
  \<open>roundLocations\<close> are created once per key and then updated in place, never
  replaced, so a map from keys to records holds what the object holds.
\<close>

record gameState =
  gs_panoId :: "string option"
  gs_heading :: "jsnum option"
  gs_pitch :: "jsnum option"
  gs_zoom :: "jsnum option"
  gs_guessLocation :: "coord option"
  gs_guessCountry :: "string option"
  actualLocation :: "coord option"
  actualCountry :: "string option"
  gs_score :: "jsnum option"
  gs_countryData :: "countryFact option"
  gs_guessCountryData :: "countryFact option"
  gs_missedClues :: "clue list"
  gs_locationOverview :: "overview option"
  userMissedClues :: string
  userReminder :: string
  roundLocations :: "string \<rightharpoonup> roundRecord"
  currentRoundKey :: "string option"
  cardCreatedForRound :: bool
  gameDataToken :: "string option"

text \<open>A template literal prints a missing value as \<open>undefined\<close>.\<close>

definition str :: "string option \<Rightarrow> string" where
  "str v = (case v of None \<Rightarrow> ''undefined'' | Some s \<Rightarrow> s)"

text \<open>\<open>arr.join(sep)\<close> on an array of strings.\<close>

fun join :: "string \<Rightarrow> string list \<Rightarrow> string" where
  "join sep [] = []"
| "join sep [x] = x"
| "join sep (x # y # ys) = x @ sep @ join sep (y # ys)"

text \<open>
  The first lines of the functions that take an optional round key: a falsy argument
  is replaced by \<open>gameState.currentRoundKey\<close>, and the function returns when that is
  falsy too.
\<close>

definition resolveRoundKey :: "string option \<Rightarrow> gameState \<Rightarrow> string option" where
  "resolveRoundKey roundKey s =
     (if truthy roundKey then roundKey
      else if truthy (currentRoundKey s) then currentRoundKey s
      else None)"

section \<open>Clue generation\<close>

text \<open>
  \<open>arraysHaveSameElements(arr1, arr2)\<close> on two arrays: equal lengths, and every item
  of \<open>arr2\<close> is in the set built from \<open>arr1\<close>.
\<close>

definition arraysHaveSameElements :: "string list \<Rightarrow> string list \<Rightarrow> bool" where
  "arraysHaveSameElements arr1 arr2 =
     (if length arr1 \<noteq> length arr2 then False
      else list_all (\<lambda>item. item \<in> set arr1) arr2)"

definition drivingSideClue :: "string \<Rightarrow> string \<Rightarrow> enrichment \<Rightarrow> enrichment \<Rightarrow> clue list" where
  "drivingSideClue c g a b =
     (if drivingSide a \<noteq> drivingSide b then
        [\<lparr>category = ''Driving Side'',
          clue_text = c @ '' drives on the '' @ str (drivingSide a) @ '' side of the road ('' @
                      g @ '' drives on the '' @ str (drivingSide b) @ '' side).''\<rparr>]
      else [])"

definition languageClue :: "string \<Rightarrow> string \<Rightarrow> enrichment \<Rightarrow> enrichment \<Rightarrow> clue list" where
  "languageClue c g a b =
     (case (languages a, languages b) of
        (Some actualLangs, Some guessLangs) \<Rightarrow>
          if \<not> arraysHaveSameElements actualLangs guessLangs then
            [\<lparr>category = ''Language'',
              clue_text = c @ [CHR 0x27] @ ''s language(s): '' @ join '', '' actualLangs @
                          '' (different from '' @ g @ [CHR 0x27] @ ''s: '' @
                          join '', '' guessLangs @ '')''\<rparr>]
          else []
      | _ \<Rightarrow> [])"

definition tldClue :: "string \<Rightarrow> string \<Rightarrow> enrichment \<Rightarrow> enrichment \<Rightarrow> clue list" where
  "tldClue c g a b =
     (if tld a \<noteq> tld b then
        [\<lparr>category = ''Internet TLD'',
          clue_text = c @ [CHR 0x27] @ ''s internet domain is '' @ str (tld a) @ '' ('' @
                      g @ [CHR 0x27] @ ''s is '' @ str (tld b) @ '').''\<rparr>]
      else [])"

text \<open>The three clues that compare the two enrichment objects, in the order pushed.\<close>

definition genericClues :: "string \<Rightarrow> string \<Rightarrow> roundRecord \<Rightarrow> clue list" where
  "genericClues c g r =
     (case (countryData r, guessCountryData r) of
        (Some cd, Some gd) \<Rightarrow>
          (case (additionalInfo cd, additionalInfo gd) of
             (Some a, Some b) \<Rightarrow>
               drivingSideClue c g a b @ languageClue c g a b @ tldClue c g a b
           | _ \<Rightarrow> [])
      | _ \<Rightarrow> [])"

definition overviewClues :: "string \<Rightarrow> roundRecord \<Rightarrow> clue list" where
  "overviewClues c r =
     (case locationOverview r of
        None \<Rightarrow> []
      | Some ov \<Rightarrow>
          (if truthy (region ov) then
             [\<lparr>category = ''Geographic Region'',
               clue_text = ''This location is in the '' @ str (region ov) @ '' region of '' @
                           c @ ''.''\<rparr>]
           else []) @
          (case coverage ov of
             None \<Rightarrow> []
           | Some cov \<Rightarrow>
               if truthy (cov_type cov) then
                 [\<lparr>category = ''Coverage Type'',
                   clue_text = ''This is '' @ str (cov_type cov) @ '' coverage in '' @ c @ ''.''\<rparr>]
               else []))"

definition generalClue :: "string \<Rightarrow> string \<Rightarrow> clue" where
  "generalClue c g =
     \<lparr>category = ''General Appearance'',
      clue_text = ''Pay closer attention to license plates, road markings, and signage in '' @
                  c @ '' to distinguish it from '' @ g @ ''.''\<rparr>"

text \<open>
  The body of the \<open>try\<close> block of \<open>prepareCountryClues\<close>: the clues pushed onto the
  empty \<open>missedClues\<close>. Every property read is guarded and every value printed is a
  string, so no statement of the block throws on a record of this type.
\<close>

definition countryClues :: "roundRecord \<Rightarrow> clue list" where
  "countryClues r =
     (if truthy (country r) \<and> truthy (guessCountry r) \<and> country r \<noteq> guessCountry r then
        (let c = str (country r);
             g = str (guessCountry r);
             pushed = genericClues c g r @ overviewClues c r
         in if length pushed < 2 then pushed @ [generalClue c g] else pushed)
      else [])"

text \<open>Whether the clues of a record hold a clue of the category \<open>Language\<close>.\<close>

definition languageClueEmitted :: "roundRecord \<Rightarrow> bool" where
  "languageClueEmitted r = list_ex (\<lambda>c. category c = ''Language'') (countryClues r)"

text \<open>
  The \<open>catch\<close> block: after an exception the fallback clue is pushed onto what
  \<open>missedClues\<close> held when the exception was thrown.
\<close>

definition fallbackClue :: "roundRecord \<Rightarrow> clue" where
  "fallbackClue r =
     \<lparr>category = ''General'',
      clue_text = ''Pay attention to distinctive features in '' @
                  (if truthy (country r) then str (country r) else ''this country'') @ ''.''\<rparr>"

definition cluesAfterError :: "roundRecord \<Rightarrow> clue list \<Rightarrow> clue list" where
  "cluesAfterError r pushed = pushed @ [fallbackClue r]"

text \<open>\<open>prepareCountryClues(roundKey)\<close>, when no exception is thrown.\<close>

definition prepareCountryClues :: "string option \<Rightarrow> gameState \<Rightarrow> gameState" where
  "prepareCountryClues roundKey0 s =
     (case resolveRoundKey roundKey0 s of
        None \<Rightarrow> s
      | Some roundKey \<Rightarrow>
          (case roundLocations s roundKey of
             None \<Rightarrow> s
           | Some roundData \<Rightarrow>
               s\<lparr>roundLocations :=
                    (roundLocations s)(roundKey \<mapsto> roundData\<lparr>missedClues := Some (countryClues roundData)\<rparr>),
                  gs_missedClues := countryClues roundData\<rparr>))"

section \<open>The country override table\<close>

record overrideEntry =
  coordinates :: coord
  tolerance :: "jsnum option"
  ov_country :: string
  ov_countryCode :: string
  ov_additionalInfo :: enrichment

definition COUNTRY_OVERRIDES :: "overrideEntry list" where
  "COUNTRY_OVERRIDES =
     [\<lparr>coordinates = \<lparr>lat = roundDouble 40.97989806962013, lng = Num (- 67.5)\<rparr>,
       tolerance = Some (roundDouble 0.2),
       ov_country = ''Guatemala'',
       ov_countryCode = ''GT'',
       ov_additionalInfo =
         \<lparr>tld = Some ''.gt'', drivingSide = Some ''right'', languages = Some [''Spanish''],
          currency = Some ''Guatemalan quetzal'', flagUrl = None,
          continent = Some ''North America'', capital = Some ''Guatemala City''\<rparr>\<rparr>]"

text \<open>The first entry of the table, which has no other.\<close>

definition guatemalaOverride :: overrideEntry where
  "guatemalaOverride = hd COUNTRY_OVERRIDES"

text \<open>\<open>override.tolerance || 0.1\<close>: a missing, zero or NaN tolerance is replaced.\<close>

definition toleranceOf :: "overrideEntry \<Rightarrow> jsnum" where
  "toleranceOf ov =
     (case tolerance ov of
        None \<Rightarrow> roundDouble 0.1
      | Some NaN \<Rightarrow> roundDouble 0.1
      | Some (Num t) \<Rightarrow> if t = 0 then roundDouble 0.1 else Num t
      | Some v \<Rightarrow> v)"

text \<open>
  The test of the loop of \<open>checkCountryOverride(lat, lng)\<close>, and the loop over a table:
  the first entry whose centre is within its tolerance in both components is
  returned.
\<close>

definition withinTolerance :: "overrideEntry \<Rightarrow> jsnum \<Rightarrow> jsnum \<Rightarrow> bool" where
  "withinTolerance ov lat0 lng0 =
     (jsLe (mathAbs (jsSub lat0 (lat (coordinates ov)))) (toleranceOf ov) \<and>
      jsLe (mathAbs (jsSub lng0 (lng (coordinates ov)))) (toleranceOf ov))"

fun overrideLoop :: "overrideEntry list \<Rightarrow> jsnum \<Rightarrow> jsnum \<Rightarrow> overrideEntry option" where
  "overrideLoop [] lat0 lng0 = None"
| "overrideLoop (ov # rest) lat0 lng0 =
     (if withinTolerance ov lat0 lng0 then Some ov else overrideLoop rest lat0 lng0)"

definition checkCountryOverride :: "jsnum \<Rightarrow> jsnum \<Rightarrow> overrideEntry option" where
  "checkCountryOverride lat0 lng0 = overrideLoop COUNTRY_OVERRIDES lat0 lng0"

text \<open>The country fact that the functions build from an override entry.\<close>

definition overrideFact :: "overrideEntry \<Rightarrow> countryFact" where
  "overrideFact ov =
     \<lparr>cd_country = ov_country ov, countryCode = Some (ov_countryCode ov), cd_state = None,
      city = None, additionalInfo = Some (ov_additionalInfo ov)\<rparr>"

definition isValidCoordinate :: "coord option \<Rightarrow> bool" where
  "isValidCoordinate v =
     (case v of
        None \<Rightarrow> False
      | Some c \<Rightarrow> \<not> isNaN (lat c) \<and> \<not> isNaN (lng c) \<and>
                  jsLe (mathAbs (lat c)) (Num 90) \<and> jsLe (mathAbs (lng c)) (Num 180))"

section \<open>Reverse geocoding\<close>

text \<open>
  The two services are the environment of the pipeline. \<open>safeApiCall\<close> resolves to
  \<open>null\<close> (\<open>None\<close>) on a timeout, an HTTP error or unparsable JSON, and never rejects.
  The reverse geocoder answers with an object that may lack its \<open>address\<close>; the
  country service answers with an array, of which only the first entry is read.
\<close>

record nominatimAddress =
  na_country :: "string option"
  country_code :: "string option"
  na_state :: "string option"
  county :: "string option"
  na_city :: "string option"
  town :: "string option"
  village :: "string option"

record restCountry =
  rc_tld :: "string list option"
  car_side :: "string option"
  rc_languages :: "string list option"
  currencies :: "string option list option"
  continents :: "string list option"
  rc_capital :: "string list option"

record services =
  nominatim :: "coord \<Rightarrow> nominatimAddress option option"
  restcountries :: "string \<Rightarrow> restCountry option"

datatype serviceCall =
  NominatimCall coord
| RestCountriesCall string
| LocationOverviewCall string

text \<open>Case conversion, on the ASCII letters (country codes are ASCII).\<close>

definition toUpperCase :: "string \<Rightarrow> string" where
  "toUpperCase s =
     map (\<lambda>c. let n = (of_char c :: nat) in
               if 97 \<le> n \<and> n \<le> 122 then char_of (n - 32) else c) s"

definition toLowerCase :: "string \<Rightarrow> string" where
  "toLowerCase s =
     map (\<lambda>c. let n = (of_char c :: nat) in
               if 65 \<le> n \<and> n \<le> 90 then char_of (n + 32) else c) s"

text \<open>\<open>a || b || ... || null\<close> on optional strings.\<close>

fun firstTruthy :: "string option list \<Rightarrow> string option" where
  "firstTruthy [] = None"
| "firstTruthy (v # vs) = (if truthy v then v else firstTruthy vs)"

definition unknownInfo :: enrichment where
  "unknownInfo =
     \<lparr>tld = Some ''Unknown'', drivingSide = Some ''Unknown'', languages = Some [''Unknown''],
      currency = Some ''Unknown'', flagUrl = None, continent = Some ''Unknown'',
      capital = Some ''Unknown''\<rparr>"

text \<open>\<open>xs && xs.length > 0 ? xs[0] : 'Unknown'\<close>.\<close>

definition firstOrUnknown :: "string list option \<Rightarrow> string option" where
  "firstOrUnknown xs = (case xs of Some (x # _) \<Rightarrow> Some x | _ \<Rightarrow> Some ''Unknown'')"

text \<open>
  The enrichment object built from the first entry of the country service's answer.
  \<open>Object.values(countryData.currencies)[0].name\<close> throws when the object has no
  value; the exception (\<open>None\<close>) is caught by the inner \<open>try\<close> and the enrichment
  keeps its \<open>Unknown\<close> fields.
\<close>

definition restInfo :: "string \<Rightarrow> restCountry \<Rightarrow> enrichment option" where
  "restInfo code rc =
     (case currencies rc of
        Some [] \<Rightarrow> None
      | _ \<Rightarrow>
        Some \<lparr>tld = firstOrUnknown (rc_tld rc),
              drivingSide = (if truthy (car_side rc) then car_side rc else Some ''Unknown''),
              languages = (case rc_languages rc of Some ls \<Rightarrow> Some ls | None \<Rightarrow> Some [''Unknown'']),
              currency = (case currencies rc of Some (c # _) \<Rightarrow> c | _ \<Rightarrow> Some ''Unknown''),
              flagUrl = (if code \<noteq> [] then Some (''https://flagcdn.com/w320/'' @ toLowerCase code @ ''.png'')
                         else None),
              continent = firstOrUnknown (continents rc),
              capital = firstOrUnknown (rc_capital rc)\<rparr>)"

text \<open>
  The part that \<open>getCountryInfoFromCoordinates\<close> (version 1.0.0) and
  \<open>getCountryFromCoordinates\<close> (version 1.1.0) share: from the request to the reverse
  geocoder to the \<open>result\<close> object. It returns the result (\<open>None\<close> for \<open>null\<close>) and the
  calls made, in order.
\<close>

definition reverseGeocode :: "services \<Rightarrow> coord \<Rightarrow> countryFact option \<times> serviceCall list" where
  "reverseGeocode svc coords =
     (case nominatim svc coords of
        None \<Rightarrow> (None, [NominatimCall coords])
      | Some None \<Rightarrow> (None, [NominatimCall coords])
      | Some (Some address) \<Rightarrow>
          (case na_country address of
             None \<Rightarrow> (None, [NominatimCall coords])
           | Some c \<Rightarrow>
               if c = [] then (None, [NominatimCall coords])
               else
                 (let code = (if truthy (country_code address)
                              then map_option toUpperCase (country_code address) else None);
                      info = (case code of
                                None \<Rightarrow> unknownInfo
                              | Some cc \<Rightarrow>
                                  (case restcountries svc cc of
                                     None \<Rightarrow> unknownInfo
                                   | Some rc \<Rightarrow>
                                       (case restInfo cc rc of
                                          None \<Rightarrow> unknownInfo
                                        | Some i \<Rightarrow> i)));
                      calls = (case code of
                                 None \<Rightarrow> [NominatimCall coords]
                               | Some cc \<Rightarrow> [NominatimCall coords, RestCountriesCall cc])
                  in (Some \<lparr>cd_country = c, countryCode = code,
                             cd_state = firstTruthy [na_state address, county address],
                             city = firstTruthy [na_city address, town address, village address],
                             additionalInfo = Some info\<rparr>,
                      calls))))"

text \<open>
  \<open>getCountryInfoFromCoordinates(lat, lng)\<close> of version 1.0.0. The override table is
  asked with the arguments as given, the geocoder with the sanitized coordinate. The
  arguments are Numbers, as every caller passes them; on a Number \<open>parseFloat\<close> is the
  identity, so the sanitizer and the override table see the same two values.
\<close>

definition getCountryInfoFromCoordinates ::
  "services \<Rightarrow> jsnum \<Rightarrow> jsnum \<Rightarrow> countryFact option \<times> serviceCall list" where
  "getCountryInfoFromCoordinates svc lat0 lng0 =
     (case sanitizeCoordinates lat0 lng0 of
        None \<Rightarrow> (None, [])
      | Some coords \<Rightarrow>
          (case checkCountryOverride lat0 lng0 of
             Some ov \<Rightarrow> (Some (overrideFact ov), [])
           | None \<Rightarrow> reverseGeocode svc coords))"

section \<open>Writing country facts to the game state\<close>

text \<open>
  What the functions read from the page when they run: the key that
  \<open>generateRoundKey()\<close> computes from the address and the round number shown, the game
  token in the address, the result of \<open>extractCountryFromDOM()\<close>, and the guess that
  the loop of \<open>handleRoundEnd\<close> finds in the result elements (the trimmed first match of
  \<open>You guessed ...\<close>).
\<close>

record page =
  generateRoundKey :: string
  urlGameToken :: "string option"
  extractCountryFromDOM :: "string option"
  guessInResultElements :: "string option"

text \<open>\<open>processCountryOverride(override, roundKey)\<close> of version 1.1.0.\<close>

definition processCountryOverride :: "overrideEntry \<Rightarrow> string option \<Rightarrow> gameState \<Rightarrow> gameState" where
  "processCountryOverride ov roundKey0 s =
     (let roundKey = (if truthy roundKey0 then roundKey0 else currentRoundKey s);
          s1 = (case roundKey of
                  None \<Rightarrow> s
                | Some k \<Rightarrow>
                    if k = [] then s
                    else (case roundLocations s k of
                            None \<Rightarrow> s
                          | Some rd \<Rightarrow>
                              s\<lparr>roundLocations :=
                                   (roundLocations s)(k \<mapsto> rd\<lparr>country := Some (ov_country ov),
                                                              countryData := Some (overrideFact ov)\<rparr>)\<rparr>))
      in s1\<lparr>actualCountry := Some (ov_country ov), gs_countryData := Some (overrideFact ov)\<rparr>)"

text \<open>
  \<open>fetchLocationOverview(roundKey)\<close> up to the request it sends: the state it leaves
  and the request, if one is sent. Without a game token it generates the clues at
  once.
\<close>

definition fetchLocationOverview ::
  "page \<Rightarrow> string option \<Rightarrow> gameState \<Rightarrow> gameState \<times> serviceCall list" where
  "fetchLocationOverview pg roundKey0 s =
     (case resolveRoundKey roundKey0 s of
        None \<Rightarrow> (s, [])
      | Some roundKey \<Rightarrow>
          (case roundLocations s roundKey of
             None \<Rightarrow> (s, [])
           | Some roundData \<Rightarrow>
               if \<not> truthy (country roundData) \<or> \<not> truthy (guessCountry roundData) then (s, [])
               else if locationOverview roundData \<noteq> None then (s, [])
               else
                 (let gameToken = (case urlGameToken pg of
                                     Some tok \<Rightarrow> tok
                                   | None \<Rightarrow> if truthy (gameDataToken s) then str (gameDataToken s) else [])
                  in if gameToken = [] then (prepareCountryClues (Some roundKey) s, [])
                     else (s, [LocationOverviewCall gameToken]))))"

text \<open>
  The key under which a late result is stored: \<open>gameState.currentRoundKey\<close> as it is
  when the result arrives, generated then if it is not set.
\<close>

definition keyAtArrival :: "page \<Rightarrow> gameState \<Rightarrow> string" where
  "keyAtArrival pg s =
     (case currentRoundKey s of
        None \<Rightarrow> generateRoundKey pg
      | Some k \<Rightarrow> if k = [] then generateRoundKey pg else k)"

text \<open>
  The last part of \<open>getCountryFromCoordinates\<close> (version 1.1.0), which runs when both
  services have answered: it stores \<open>result\<close> as the guess country or as the actual
  country of the round that is current at that moment.
\<close>

definition recordCountryResult ::
  "page \<Rightarrow> countryFact \<Rightarrow> bool \<Rightarrow> gameState \<Rightarrow> gameState \<times> serviceCall list" where
  "recordCountryResult pg result isGuess s =
     (let k = keyAtArrival pg s;
          s1 = s\<lparr>currentRoundKey := Some k\<rparr>
      in if isGuess then
           (let s2 = (case roundLocations s1 k of
                        None \<Rightarrow> s1
                      | Some rd \<Rightarrow>
                          s1\<lparr>roundLocations :=
                                (roundLocations s1)(k \<mapsto> rd\<lparr>guessCountry := Some (cd_country result),
                                                            guessCountryData := Some result\<rparr>)\<rparr>);
                s3 = s2\<lparr>gs_guessCountry := Some (cd_country result),
                        gs_guessCountryData := Some result\<rparr>
            in (case roundLocations s3 k of
                  None \<Rightarrow> (s3, [])
                | Some rd \<Rightarrow>
                    if truthy (country rd) then fetchLocationOverview pg (currentRoundKey s3) s3
                    else (s3, [])))
         else
           (let s2 = (case roundLocations s1 k of
                        None \<Rightarrow> s1
                      | Some rd \<Rightarrow>
                          s1\<lparr>roundLocations :=
                                (roundLocations s1)(k \<mapsto> rd\<lparr>country := Some (cd_country result),
                                                            countryData := Some result\<rparr>)\<rparr>);
                s3 = s2\<lparr>actualCountry := Some (cd_country result),
                        gs_countryData := Some result\<rparr>
            in (case roundLocations s3 k of
                  None \<Rightarrow> (s3, [])
                | Some rd \<Rightarrow>
                    if truthy (guessCountry rd) then fetchLocationOverview pg (currentRoundKey s3) s3
                    else (s3, []))))"

text \<open>
  A request of \<open>getCountryFromCoordinates\<close> that is under way is resolved in the state
  and on the page as they are when the answers arrive.
\<close>

datatype geoReturn = ReturnsNull | ReturnsUndefined | ReturnsFact countryFact

definition resolveGeocode ::
  "services \<Rightarrow> page \<Rightarrow> coord \<Rightarrow> bool \<Rightarrow> gameState \<Rightarrow> geoReturn \<times> gameState \<times> serviceCall list" where
  "resolveGeocode svc pg coords isGuess s =
     (case reverseGeocode svc coords of
        (None, calls) \<Rightarrow> (ReturnsNull, s, calls)
      | (Some result, calls) \<Rightarrow>
          (case recordCountryResult pg result isGuess s of
             (s', calls') \<Rightarrow> (ReturnsFact result, s', calls @ calls')))"

text \<open>
  \<open>getCountryFromCoordinates(lat, lng, isGuess)\<close> of version 1.1.0, when nothing else
  runs while it waits for the services; the coordinates are Numbers, as above. The
  override table is asked in both roles, and its answer is used only for the actual
  location (\<open>override && !isGuess\<close>).
\<close>

definition getCountryFromCoordinates ::
  "services \<Rightarrow> page \<Rightarrow> jsnum \<Rightarrow> jsnum \<Rightarrow> bool \<Rightarrow> gameState \<Rightarrow>
   geoReturn \<times> gameState \<times> serviceCall list" where
  "getCountryFromCoordinates svc pg lat0 lng0 isGuess s =
     (case sanitizeCoordinates lat0 lng0 of
        None \<Rightarrow> (ReturnsNull, s, [])
      | Some coords \<Rightarrow>
          (case checkCountryOverride lat0 lng0 of
             Some ov \<Rightarrow>
               if \<not> isGuess then (ReturnsUndefined, processCountryOverride ov None s, [])
               else resolveGeocode svc pg coords isGuess s
           | None \<Rightarrow> resolveGeocode svc pg coords isGuess s))"

text \<open>
  The callback that \<open>processGoogleMapsResponse\<close> (version 1.0.0) attaches to its call of
  \<open>getCountryInfoFromCoordinates\<close>. When no record exists under the current key the
  first assignment throws and nothing is stored.
\<close>

definition googleMapsCountryArrived :: "countryFact option \<Rightarrow> coord \<Rightarrow> gameState \<Rightarrow> gameState" where
  "googleMapsCountryArrived countryData0 validCoords s =
     (case countryData0 of
        None \<Rightarrow> s
      | Some cd \<Rightarrow>
          (let stored = s\<lparr>gs_countryData := Some cd, actualCountry := Some (cd_country cd),
                           actualLocation := Some validCoords\<rparr>
           in if truthy (currentRoundKey s) then
                (case roundLocations s (str (currentRoundKey s)) of
                   None \<Rightarrow> s
                 | Some rd \<Rightarrow>
                     stored\<lparr>roundLocations :=
                              (roundLocations s)(str (currentRoundKey s) \<mapsto>
                                 rd\<lparr>countryData := Some cd, country := Some (cd_country cd)\<rparr>)\<rparr>)
              else stored))"

text \<open>
  The start of a round. In version 1.0.0 \<open>updateGameState\<close> sets the key, creates the
  round's record if there is none and resets the per-round fields; in version 1.1.0
  \<open>gameLoop\<close> sets the key.
\<close>

definition newRoundRecord :: roundRecord where
  "newRoundRecord =
     \<lparr>panoId = None, location = None, heading = Some (Num 0), pitch = Some (Num 0),
      zoom = Some (Num 0), country = None, countryData = None, guessLocation = None,
      guessCountry = None, guessCountryData = None, score = Some (Num 0),
      missedClues = Some [], locationOverview = None, cardCreated = False\<rparr>"

definition startNewRound :: "page \<Rightarrow> gameState \<Rightarrow> gameState" where
  "startNewRound pg s =
     (let k = generateRoundKey pg;
          locs = (case roundLocations s k of
                    None \<Rightarrow> (roundLocations s)(k \<mapsto> newRoundRecord)
                  | Some _ \<Rightarrow> roundLocations s)
      in s\<lparr>currentRoundKey := Some k, roundLocations := locs,
            gs_guessLocation := None, gs_guessCountry := None,
            userMissedClues := [], userReminder := [], cardCreatedForRound := False,
            gs_score := Some (Num 0), gs_missedClues := [], gs_locationOverview := None\<rparr>)"

definition gameLoopNewRound :: "page \<Rightarrow> gameState \<Rightarrow> gameState" where
  "gameLoopNewRound pg s = s\<lparr>currentRoundKey := Some (generateRoundKey pg)\<rparr>"

section \<open>The end of a round\<close>

text \<open>The record that \<open>handleRoundEnd\<close> creates from the current state.\<close>

definition recordFromState :: "gameState \<Rightarrow> roundRecord" where
  "recordFromState s =
     \<lparr>panoId = gs_panoId s, location = actualLocation s, heading = gs_heading s,
      pitch = gs_pitch s, zoom = gs_zoom s, country = actualCountry s,
      countryData = gs_countryData s, guessLocation = gs_guessLocation s,
      guessCountry = gs_guessCountry s, guessCountryData = gs_guessCountryData s,
      score = gs_score s, missedClues = Some (gs_missedClues s),
      locationOverview = gs_locationOverview s, cardCreated = False\<rparr>"

text \<open>The country facts built from page text.\<close>

definition domCountryFact :: "string \<Rightarrow> countryFact" where
  "domCountryFact extractedCountry =
     \<lparr>cd_country = extractedCountry, countryCode = None, cd_state = None, city = None,
      additionalInfo =
        Some \<lparr>tld = None, drivingSide = Some ''Unknown'', languages = None, currency = None,
              flagUrl = None, continent = Some ''Unknown'', capital = None\<rparr>\<rparr>"

definition domGuessFact :: "string \<Rightarrow> countryFact" where
  "domGuessFact g =
     \<lparr>cd_country = g, countryCode = None, cd_state = None, city = None,
      additionalInfo =
        Some \<lparr>tld = None, drivingSide = None, languages = None, currency = None,
              flagUrl = None, continent = None, capital = None\<rparr>\<rparr>"

text \<open>
  The override step of \<open>handleRoundEnd\<close> (version 1.0.0), on the record under
  \<open>roundKey\<close>: the table is asked when the record's location is a valid coordinate.
\<close>

definition overrideForRecord :: "roundRecord \<Rightarrow> overrideEntry option" where
  "overrideForRecord rd =
     (if isValidCoordinate (location rd) then
        (case location rd of
           None \<Rightarrow> None
         | Some loc \<Rightarrow> checkCountryOverride (lat loc) (lng loc))
      else None)"

definition overrideAtRoundEnd :: "string \<Rightarrow> gameState \<Rightarrow> gameState" where
  "overrideAtRoundEnd roundKey s =
     (case roundLocations s roundKey of
        None \<Rightarrow> s
      | Some rd \<Rightarrow>
          (case overrideForRecord rd of
             None \<Rightarrow> s
           | Some ov \<Rightarrow>
               s\<lparr>roundLocations :=
                    (roundLocations s)(roundKey \<mapsto> rd\<lparr>country := Some (ov_country ov),
                                                      countryData := Some (overrideFact ov)\<rparr>),
                  actualCountry := Some (ov_country ov),
                  gs_countryData := Some (overrideFact ov)\<rparr>))"

text \<open>
  The fallback of \<open>handleRoundEnd\<close>: page text is consulted only when the record has no
  country.
\<close>

definition domFallback :: "page \<Rightarrow> string \<Rightarrow> gameState \<Rightarrow> gameState" where
  "domFallback pg roundKey s =
     (case roundLocations s roundKey of
        None \<Rightarrow> s
      | Some rd \<Rightarrow>
          if truthy (country rd) then s
          else if \<not> truthy (extractCountryFromDOM pg) then s
          else
            (let extractedCountry = str (extractCountryFromDOM pg);
                 rd1 = rd\<lparr>country := Some extractedCountry\<rparr>;
                 s1 = s\<lparr>actualCountry := Some extractedCountry\<rparr>;
                 rd2 = (if countryData rd1 = None
                        then rd1\<lparr>countryData := Some (domCountryFact extractedCountry)\<rparr> else rd1);
                 s2 = (if countryData rd1 = None
                       then s1\<lparr>gs_countryData := Some (domCountryFact extractedCountry)\<rparr> else s1);
                 rd3 = (case guessInResultElements pg of
                          None \<Rightarrow> rd2
                        | Some g \<Rightarrow> rd2\<lparr>guessCountry := Some g,
                                         guessCountryData := Some (domGuessFact g)\<rparr>);
                 s3 = (case guessInResultElements pg of
                         None \<Rightarrow> s2
                       | Some g \<Rightarrow> s2\<lparr>gs_guessCountry := Some g,
                                       gs_guessCountryData := Some (domGuessFact g)\<rparr>);
                 s4 = s3\<lparr>roundLocations := (roundLocations s3)(roundKey \<mapsto> rd3)\<rparr>
             in if missedClues rd3 = None \<or> missedClues rd3 = Some []
                then prepareCountryClues (Some roundKey) s4 else s4))"

text \<open>
  \<open>handleRoundEnd()\<close> of version 1.0.0. The timers it clears and the interface state
  it updates are not part of the modelled state.
\<close>

definition handleRoundEnd :: "page \<Rightarrow> gameState \<Rightarrow> gameState" where
  "handleRoundEnd pg s =
     (let roundKey = generateRoundKey pg;
          s1 = s\<lparr>currentRoundKey := Some roundKey\<rparr>;
          s2 = (case roundLocations s1 roundKey of
                  None \<Rightarrow> s1\<lparr>roundLocations := (roundLocations s1)(roundKey \<mapsto> recordFromState s1)\<rparr>
                | Some _ \<Rightarrow> s1);
          s3 = overrideAtRoundEnd roundKey s2;
          s4 = s3\<lparr>userMissedClues := [], userReminder := [], cardCreatedForRound := False\<rparr>
      in domFallback pg roundKey s4)"

section \<open>The card\<close>

text \<open>
  The other arithmetic on Numbers: sum, product and quotient are rounded as the
  difference is, the remainder and \<open>Math.round\<close> are exact.
\<close>

fun jsAdd :: "jsnum \<Rightarrow> jsnum \<Rightarrow> jsnum" where
  "jsAdd NaN _ = NaN"
| "jsAdd _ NaN = NaN"
| "jsAdd (Num a) (Num b) = roundDouble (a + b)"
| "jsAdd PInf NInf = NaN"
| "jsAdd NInf PInf = NaN"
| "jsAdd PInf _ = PInf"
| "jsAdd NInf _ = NInf"
| "jsAdd (Num a) PInf = PInf"
| "jsAdd (Num a) NInf = NInf"

fun jsMul :: "jsnum \<Rightarrow> jsnum \<Rightarrow> jsnum" where
  "jsMul NaN _ = NaN"
| "jsMul _ NaN = NaN"
| "jsMul (Num a) (Num b) = roundDouble (a * b)"
| "jsMul (Num a) PInf = (if a = 0 then NaN else if 0 < a then PInf else NInf)"
| "jsMul (Num a) NInf = (if a = 0 then NaN else if 0 < a then NInf else PInf)"
| "jsMul PInf (Num b) = (if b = 0 then NaN else if 0 < b then PInf else NInf)"
| "jsMul NInf (Num b) = (if b = 0 then NaN else if 0 < b then NInf else PInf)"
| "jsMul PInf PInf = PInf"
| "jsMul NInf NInf = PInf"
| "jsMul PInf NInf = NInf"
| "jsMul NInf PInf = NInf"

fun jsDiv :: "jsnum \<Rightarrow> jsnum \<Rightarrow> jsnum" where
  "jsDiv NaN _ = NaN"
| "jsDiv _ NaN = NaN"
| "jsDiv (Num a) (Num b) =
     (if b = 0 then (if a = 0 then NaN else if 0 < a then PInf else NInf)
      else roundDouble (a / b))"
| "jsDiv (Num a) PInf = Num 0"
| "jsDiv (Num a) NInf = Num 0"
| "jsDiv PInf (Num b) = (if 0 \<le> b then PInf else NInf)"
| "jsDiv NInf (Num b) = (if 0 \<le> b then NInf else PInf)"
| "jsDiv PInf PInf = NaN"
| "jsDiv PInf NInf = NaN"
| "jsDiv NInf PInf = NaN"
| "jsDiv NInf NInf = NaN"

text \<open>The remainder \<open>a % b\<close> has the sign of \<open>a\<close>: the quotient is truncated.\<close>

definition truncateReal :: "real \<Rightarrow> int" where
  "truncateReal x = (if 0 \<le> x then \<lfloor>x\<rfloor> else \<lceil>x\<rceil>)"

fun jsMod :: "jsnum \<Rightarrow> jsnum \<Rightarrow> jsnum" where
  "jsMod NaN _ = NaN"
| "jsMod _ NaN = NaN"
| "jsMod PInf _ = NaN"
| "jsMod NInf _ = NaN"
| "jsMod (Num a) PInf = Num a"
| "jsMod (Num a) NInf = Num a"
| "jsMod (Num a) (Num b) =
     (if b = 0 then NaN else Num (a - b * of_int (truncateReal (a / b))))"

fun mathRound :: "jsnum \<Rightarrow> jsnum" where
  "mathRound (Num a) = Num (of_int \<lfloor>a + 1 / 2\<rfloor>)"
| "mathRound v = v"

text \<open>\<open>x || d\<close> on a Number that may be missing: missing, zero and NaN are falsy.\<close>

definition numOr :: "jsnum option \<Rightarrow> jsnum \<Rightarrow> jsnum" where
  "numOr v d =
     (case v of
        None \<Rightarrow> d
      | Some NaN \<Rightarrow> d
      | Some (Num a) \<Rightarrow> if a = 0 then d else Num a
      | Some w \<Rightarrow> w)"

text \<open>
  The functions of the JavaScript runtime that turn Numbers into text and back, and
  \<open>encodeURIComponent\<close>. They are parameters of the card functions.
\<close>

record host =
  toFixed6 :: "jsnum \<Rightarrow> string"
  numberToString :: "jsnum \<Rightarrow> string"
  parseFloatString :: "string \<Rightarrow> jsnum"
  encodeURIComponent :: "string \<Rightarrow> string"

text \<open>
  Characters outside ASCII occur only in the literals of the card templates: the
  pictographs and the arrow. A string holds them as the bytes that the source file
  has in their place. The file of version 1.0.0 has the UTF-8 encoding of each symbol;
  the file of version 1.1.0 has other bytes there (the same symbols after a wrong
  change of encoding), so the templates of the two versions differ in these
  literals.
\<close>

definition nl :: string where "nl = [CHR 0x0A]"
definition dq :: string where "dq = [CHR 0x22]"
definition sq :: string where "sq = [CHR 0x27]"

record glyphs =
  emojiGlobe :: string
  emojiAmericas :: string
  emojiLink :: string
  emojiPin :: string
  emojiCar :: string
  emojiStop :: string
  emojiCheck :: string
  emojiCross :: string
  emojiBolt :: string
  arrowRight :: string

definition glyphsV10 :: glyphs where
  "glyphsV10 =
     \<lparr>emojiGlobe = [CHR 0xF0, CHR 0x9F, CHR 0x8C, CHR 0x8D],
      emojiAmericas = [CHR 0xF0, CHR 0x9F, CHR 0x8C, CHR 0x8E],
      emojiLink = [CHR 0xF0, CHR 0x9F, CHR 0x94, CHR 0x97],
      emojiPin = [CHR 0xF0, CHR 0x9F, CHR 0x93, CHR 0x8D],
      emojiCar = [CHR 0xF0, CHR 0x9F, CHR 0x9A, CHR 0x97],
      emojiStop = [CHR 0xF0, CHR 0x9F, CHR 0x9B, CHR 0x91],
      emojiCheck = [CHR 0xE2, CHR 0x9C, CHR 0x85],
      emojiCross = [CHR 0xE2, CHR 0x9D, CHR 0x8C],
      emojiBolt = [CHR 0xE2, CHR 0x9A, CHR 0xA1],
      arrowRight = [CHR 0xE2, CHR 0x86, CHR 0x92]\<rparr>"

definition glyphsV11 :: glyphs where
  "glyphsV11 =
     \<lparr>emojiGlobe = [CHR 0xC3, CHR 0xB0, CHR 0xC5, CHR 0xB8, CHR 0xC5, CHR 0x92],
      emojiAmericas = [CHR 0xC3, CHR 0xB0, CHR 0xC5, CHR 0xB8, CHR 0xC5, CHR 0x92, CHR 0xC5, CHR 0xBD],
      emojiLink = [CHR 0xC3, CHR 0xB0, CHR 0xC5, CHR 0xB8, CHR 0xE2, CHR 0x80, CHR 0x9D, CHR 0xE2, CHR 0x80, CHR 0x94],
      emojiPin = [CHR 0xC3, CHR 0xB0, CHR 0xC5, CHR 0xB8, CHR 0xE2, CHR 0x80, CHR 0x9C],
      emojiCar = [CHR 0xC3, CHR 0xB0, CHR 0xC5, CHR 0xB8, CHR 0xC5, CHR 0xA1, CHR 0xE2, CHR 0x80, CHR 0x94],
      emojiStop = [CHR 0xC3, CHR 0xB0, CHR 0xC5, CHR 0xB8, CHR 0xE2, CHR 0x80, CHR 0xBA, CHR 0xE2, CHR 0x80, CHR 0x98],
      emojiCheck = [CHR 0xC3, CHR 0xA2, CHR 0xC5, CHR 0x93, CHR 0xE2, CHR 0x80, CHR 0xA6],
      emojiCross = [CHR 0xC3, CHR 0xA2, CHR 0xC5, CHR 0x92],
      emojiBolt = [CHR 0xC3, CHR 0xA2, CHR 0xC5, CHR 0xA1, CHR 0xC2, CHR 0xA1],
      arrowRight = [CHR 0xC3, CHR 0xA2, CHR 0xE2, CHR 0x80, CHR 0xA0, CHR 0xE2, CHR 0x80, CHR 0x99]\<rparr>"

text \<open>
  \<open>createStreetViewLink(lat, lng, panoId, heading, pitch, zoom)\<close>, called with the two
  coordinates as text and the other three as Numbers.
\<close>

definition createStreetViewLink ::
  "host \<Rightarrow> string \<Rightarrow> string \<Rightarrow> string option \<Rightarrow> jsnum \<Rightarrow> jsnum \<Rightarrow> jsnum \<Rightarrow> string" where
  "createStreetViewLink H lat0 lng0 pano heading0 pitch0 zoom0 =
     (case sanitizeCoordinates (parseFloatString H lat0) (parseFloatString H lng0) of
        None \<Rightarrow> ''#''
      | Some coords \<Rightarrow>
          (let heading1 = numOr (Some heading0) (Num 0);
               pitch1 = numOr (Some pitch0) (Num 0);
               zoom1 = numOr (Some zoom0) (Num 1);
               heading2 = jsMod (jsAdd (jsMod heading1 (Num 360)) (Num 360)) (Num 360);
               pitch2 = mathMax (Num (- 90)) (mathMin (Num 90) pitch1);
               zoom2 = mathMax (Num 0) (mathMin (Num 4) zoom1);
               simple =
                 ''https://www.google.com/maps/@'' @ toFixed6 H (lat coords) @ '','' @
                 toFixed6 H (lng coords) @ '',3a,90y,0h,0t/data=!3m1!1e1''
           in if \<not> truthy pano then simple
              else
                (let pid = panoIdDecoder pano
                 in if pid = [] then simple
                    else
                      (let h = jsDiv (mathRound (jsMul heading2 (Num 100))) (Num 100);
                           p = jsDiv (mathRound (jsMul (jsAdd (Num 90) pitch2) (Num 100))) (Num 100);
                           z = jsDiv (mathRound
                                 (jsMul (jsSub (Num 90) (jsMul (jsDiv zoom2 (Num 2.75)) (Num 90)))
                                    (Num 10))) (Num 10)
                       in ''https://www.google.com/maps/@'' @ toFixed6 H (lat coords) @ '','' @
                          toFixed6 H (lng coords) @ '',3a,'' @ numberToString H z @ ''y,'' @
                          numberToString H h @ ''h,'' @ numberToString H p @
                          ''t/data=!3m6!1e1!3m4!1s'' @ encodeURIComponent H pid @
                          ''!2e0!7i13312!8i6656''))))"

text \<open>
  The match of \<open>/has (.+?) (?:signs|poles|antennas|coverage)/i\<close>: at the leftmost
  \<open>has\<close> followed by a space from which it succeeds, the shortest non-empty run of
  characters other than line terminators that is followed by a space and one of the
  four words. Letters are compared without regard to case.
\<close>

definition startsWithCI :: "string \<Rightarrow> string \<Rightarrow> bool" where
  "startsWithCI p s = (length p \<le> length s \<and> toLowerCase (take (length p) s) = toLowerCase p)"

definition detailFollows :: "string \<Rightarrow> bool" where
  "detailFollows s =
     list_ex (\<lambda>w. startsWithCI w s) ['' signs'', '' poles'', '' antennas'', '' coverage'']"

fun lazyDetail :: "string \<Rightarrow> string \<Rightarrow> string option" where
  "lazyDetail taken [] = None"
| "lazyDetail taken (c # cs) =
     (if c = CHR 0x0A \<or> c = CHR 0x0D then None
      else if detailFollows cs then Some (taken @ [c])
      else lazyDetail (taken @ [c]) cs)"

fun matchHasDetail :: "string \<Rightarrow> string option" where
  "matchHasDetail [] = None"
| "matchHasDetail (c # cs) =
     (if startsWithCI ''has '' (c # cs) then
        (case lazyDetail [] (drop 4 (c # cs)) of
           Some d \<Rightarrow> Some d
         | None \<Rightarrow> matchHasDetail cs)
      else matchHasDetail cs)"

text \<open>\<open>s.trim()\<close>: white space and line terminators with codes below 256.\<close>

definition isTrimmed :: "char \<Rightarrow> bool" where
  "isTrimmed c = (let n = (of_char c :: nat) in (9 \<le> n \<and> n \<le> 13) \<or> n = 32 \<or> n = 160)"

definition trim :: "string \<Rightarrow> string" where
  "trim s = rev (dropWhile isTrimmed (rev (dropWhile isTrimmed s)))"

text \<open>\<open>s.startsWith(p)\<close>, and \<open>s.split(c)[0]\<close> for a one-character separator.\<close>

definition startsWith :: "string \<Rightarrow> string \<Rightarrow> bool" where
  "startsWith p s = (take (length p) s = p)"

definition beforeFirst :: "char \<Rightarrow> string \<Rightarrow> string" where
  "beforeFirst c s = takeWhile (\<lambda>x. x \<noteq> c) s"

text \<open>The loop of \<open>getSingleDistinctiveClue\<close> over the clues; \<open>None\<close> when it returns nothing.\<close>

fun distinctiveLoop :: "clue list \<Rightarrow> string option" where
  "distinctiveLoop [] = None"
| "distinctiveLoop (c # cs) =
     (if category c \<in> set [''Driving Side'', ''Language'', ''Coverage Type''] then
        (case matchHasDetail (clue_text c) of
           Some d \<Rightarrow> Some d
         | None \<Rightarrow>
             (let shortClue = trim (beforeFirst CHR ''('' (clue_text c))
              in if length shortClue < 50 then Some shortClue else distinctiveLoop cs))
      else distinctiveLoop cs)"

definition distinctiveFromClues :: "roundRecord \<Rightarrow> string option" where
  "distinctiveFromClues roundData =
     (case missedClues roundData of
        None \<Rightarrow> None
      | Some [] \<Rightarrow> None
      | Some (c0 # cs) \<Rightarrow>
          (case distinctiveLoop (c0 # cs) of
             Some d \<Rightarrow> Some d
           | None \<Rightarrow>
               if clue_text c0 \<noteq> [] then
                 (let shortened = beforeFirst CHR ''.'' (clue_text c0)
                  in Some (if length shortened < 40 then shortened
                           else ''different road markings or signs''))
               else None))"

definition distinctiveFromDrivingSide :: "roundRecord \<Rightarrow> string option" where
  "distinctiveFromDrivingSide roundData =
     (case countryData roundData of
        None \<Rightarrow> None
      | Some cd \<Rightarrow>
          (case additionalInfo cd of
             None \<Rightarrow> None
           | Some a \<Rightarrow>
               if drivingSide a \<noteq> Some ''Unknown''
               then Some (''drives on the '' @ str (drivingSide a) @ '' side'')
               else None))"

text \<open>\<open>getSingleDistinctiveClue(roundKey)\<close>.\<close>

definition getSingleDistinctiveClue :: "string option \<Rightarrow> gameState \<Rightarrow> string" where
  "getSingleDistinctiveClue roundKey0 s =
     (case resolveRoundKey roundKey0 s of
        None \<Rightarrow> ''distinctive local features''
      | Some roundKey \<Rightarrow>
          (case roundLocations s roundKey of
             None \<Rightarrow> ''distinctive local features''
           | Some roundData \<Rightarrow>
               (case distinctiveFromClues roundData of
                  Some d \<Rightarrow> d
                | None \<Rightarrow>
                    (case distinctiveFromDrivingSide roundData of
                       Some d \<Rightarrow> d
                     | None \<Rightarrow> ''distinctive local features''))))"

record cardData =
  frontField :: string
  backField :: string
  mapsLink :: string
  card_actualCountry :: string
  card_guessCountry :: string
  card_roundKey :: string

text \<open>The link to the location that \<open>buildAnkiCardData\<close> prepares.\<close>

definition cardMapsLink :: "host \<Rightarrow> roundRecord \<Rightarrow> string" where
  "cardMapsLink H roundData =
     (if isValidCoordinate (location roundData) then
        (case location roundData of
           None \<Rightarrow> ''#''
         | Some loc \<Rightarrow>
             (let lat1 = toFixed6 H (lat loc);
                  lng1 = toFixed6 H (lng loc);
                  link =
                    (if truthy (panoId roundData) then
                       createStreetViewLink H lat1 lng1 (panoId roundData)
                         (numOr (heading roundData) (Num 0)) (numOr (pitch roundData) (Num 0))
                         (numOr (zoom roundData) (Num 0))
                     else ''https://www.google.com/maps/@'' @ lat1 @ '','' @ lng1 @
                          '',3a,90y,0h,0t/data=!3m1!1e1'')
              in if link = [] \<or> link = ''#'' \<or> \<not> startsWith ''http'' link
                 then ''https://www.google.com/maps/@'' @ lat1 @ '','' @ lng1 @ '',12z''
                 else link))
      else ''#'')"

text \<open>
  The body of \<open>buildAnkiCardData\<close> after its checks, for the record \<open>roundData\<close> under
  \<open>roundKey\<close>. \<open>G\<close> holds the symbols of the version's templates; \<open>hide\<close> is the
  setting \<open>hideLocationInFrontCard\<close>; \<open>useDefaults\<close> is the parameter of version 1.1.0
  and is false in version 1.0.0, which has no such parameter.
\<close>

definition cardFront :: "glyphs \<Rightarrow> bool \<Rightarrow> string \<Rightarrow> roundRecord \<Rightarrow> string" where
  "cardFront G hide link roundData =
     (if link \<noteq> [] \<and> link \<noteq> ''#'' \<and> \<not> hide then
         ''You guessed '' @ str (guessCountry roundData) @
         '', but the correct answer was '' @ str (country roundData) @
         ''. What clues did you miss? '' @ emojiGlobe G @ ''<br><br>'' @ nl @ emojiLink G @
         '' <a href='' @ dq @ link @ dq @ '' target='' @ dq @ ''_blank'' @ dq @
         ''>Google Maps Link: View Correct Location</a>''
      else
         ''You guessed '' @ str (guessCountry roundData) @
         '', but the correct answer was '' @ str (country roundData) @
         ''. What clues did you miss? '' @ emojiGlobe G)"

definition cardFlagHtml :: "roundRecord \<Rightarrow> string" where
  "cardFlagHtml roundData =
     (case countryData roundData of
        None \<Rightarrow> []
      | Some cd \<Rightarrow>
          (case countryCode cd of
             None \<Rightarrow> []
           | Some code \<Rightarrow>
               if code = [] then []
               else
                 (let flagUrl0 = ''https://flagcdn.com/w320/'' @ toLowerCase code @ ''.png''
                  in '' <img src='' @ dq @ flagUrl0 @ dq @ '' class='' @ dq @ ''flag-image'' @ dq @
                     '' alt='' @ dq @ ''Flag of '' @ str (country roundData) @ dq @
                     '' onerror='' @ dq @ ''this.style.display='' @ sq @ ''none'' @ sq @ dq @
                     ''>'')))"

definition cityOf :: "countryFact option \<Rightarrow> string" where
  "cityOf v =
     (case v of
        None \<Rightarrow> ''Unknown location''
      | Some cd \<Rightarrow> if truthy (city cd) then str (city cd) else ''Unknown location'')"

definition infoOr :: "(enrichment \<Rightarrow> string option) \<Rightarrow> countryFact option \<Rightarrow> string" where
  "infoOr field v =
     (case v of
        None \<Rightarrow> ''Unknown''
      | Some cd \<Rightarrow>
          (case additionalInfo cd of
             None \<Rightarrow> ''Unknown''
           | Some a \<Rightarrow> if truthy (field a) then str (field a) else ''Unknown''))"

definition cardClueItems :: "roundRecord \<Rightarrow> string" where
  "cardClueItems roundData =
     (case missedClues roundData of
        Some (c0 # cs) \<Rightarrow>
          concat (map (\<lambda>c. if category c \<noteq> [] \<and> clue_text c \<noteq> []
                            then ''<li><strong>'' @ category c @ '':</strong> '' @ clue_text c @
                                 ''</li>''
                            else []) (c0 # cs))
      | _ \<Rightarrow>
         ''<li><strong>General:</strong> Pay attention to distinctive features in '' @
         str (country roundData) @ ''.</li>'')"

definition cardBack ::
  "glyphs \<Rightarrow> bool \<Rightarrow> string \<Rightarrow> string \<Rightarrow> roundRecord \<Rightarrow> gameState \<Rightarrow> string" where
  "cardBack G useDefaults link roundKey roundData s =
     (let flagHtml = cardFlagHtml roundData;
          guessCity = cityOf (guessCountryData roundData);
          actualCity = cityOf (countryData roundData);
          continent0 = infoOr continent (countryData roundData);
          drivingSide0 = infoOr drivingSide (countryData roundData)
      in ''<h3>'' @ emojiCheck G @ '' Correct Answer: <strong>'' @ str (country roundData) @
         ''</strong>'' @ flagHtml @ ''</h3>'' @ nl @ ''<h3>'' @ emojiCross G @
         '' Mistake: Guessed '' @ str (guessCountry roundData) @ ''</h3>'' @ nl @ nl @
         ''<p>'' @ emojiPin G @ '' <strong>Your Guess:</strong> '' @ guessCity @
         '', <strong>'' @ str (guessCountry roundData) @ ''</strong></p>'' @ nl @ ''<p>'' @
         emojiPin G @ '' <strong>Correct Location:</strong> '' @ actualCity @ '', <strong>'' @
         str (country roundData) @ ''</strong></p>'' @
         (if link \<noteq> [] \<and> link \<noteq> ''#'' then
            nl @ ''<p>'' @ emojiLink G @ '' <a href='' @ dq @ link @ dq @ '' target='' @ dq @
            ''_blank'' @ dq @ ''>View on Google Maps</a></p>''
          else []) @
         nl @ ''<p>'' @ emojiAmericas G @ '' <strong>Continent:</strong> <strong>'' @
         continent0 @ ''</strong></p>'' @ nl @ ''<p>'' @ emojiCar G @
         '' <strong>Driving Side:</strong> <strong>'' @ drivingSide0 @ ''</strong></p>'' @
         (if trim (userMissedClues s) \<noteq> [] \<and> \<not> useDefaults then
            nl @ ''<h3>'' @ emojiStop G @ '' Key Clues You Missed:</h3>'' @ nl @ ''<p>'' @
            userMissedClues s @ ''</p>''
          else
            nl @ ''<h3>'' @ emojiStop G @ '' Key Clues You Missed:</h3>'' @ nl @ ''<ul>'' @
            cardClueItems roundData @ ''</ul>'') @
         (if trim (userReminder s) \<noteq> [] \<and> \<not> useDefaults then
            nl @ ''<h3>Next Time, Remember:</h3>'' @ nl @ ''<p>'' @ emojiBolt G @ '' <em>'' @
            userReminder s @ ''</em></p>''
          else
            nl @ ''<h3>Next Time, Remember:</h3>'' @ nl @ ''<p>'' @ emojiBolt G @ '' <em>'' @
            dq @ ''If it looks like '' @ str (guessCountry roundData) @ '' but has '' @
            getSingleDistinctiveClue (Some roundKey) s @ '' '' @ arrowRight G @ '' Think '' @
            str (country roundData) @ ''!'' @ dq @ ''</em></p>''))"

definition cardFields ::
  "glyphs \<Rightarrow> host \<Rightarrow> bool \<Rightarrow> bool \<Rightarrow> string \<Rightarrow> roundRecord \<Rightarrow> gameState \<Rightarrow> cardData" where
  "cardFields G H hide useDefaults roundKey roundData s =
     (let link = cardMapsLink H roundData
      in \<lparr>frontField = cardFront G hide link roundData,
          backField = cardBack G useDefaults link roundKey roundData s,
          mapsLink = link,
          card_actualCountry = str (country roundData),
          card_guessCountry = str (guessCountry roundData),
          card_roundKey = roundKey\<rparr>)"

text \<open>\<open>buildAnkiCardData()\<close> of version 1.0.0; \<open>None\<close> is the \<open>null\<close> it returns.\<close>

definition buildAnkiCardData :: "host \<Rightarrow> bool \<Rightarrow> gameState \<Rightarrow> cardData option" where
  "buildAnkiCardData H hide s =
     (if \<not> truthy (currentRoundKey s) then None
      else
        (let roundKey = str (currentRoundKey s)
         in (case roundLocations s roundKey of
               None \<Rightarrow> None
             | Some roundData \<Rightarrow>
                 if \<not> truthy (country roundData) \<or> \<not> truthy (guessCountry roundData) then None
                 else Some (cardFields glyphsV10 H hide False roundKey roundData s))))"

text \<open>
  \<open>buildAnkiCardData(useDefaults)\<close> of version 1.1.0. With \<open>useDefaults\<close> a missing
  country is first replaced, on the record and in the state, by the country read from
  the page or by a placeholder, and a missing guess by a placeholder. The templates
  have the words of version 1.0.0 and the symbols as the file of version 1.1.0 holds
  them.
\<close>

definition fillDefaults :: "page \<Rightarrow> string \<Rightarrow> roundRecord \<Rightarrow> gameState \<Rightarrow> roundRecord \<times> gameState" where
  "fillDefaults pg roundKey roundData s =
     (let c = (if truthy (extractCountryFromDOM pg) then str (extractCountryFromDOM pg)
               else ''Unknown Country'');
          rd1 = (if \<not> truthy (country roundData) then roundData\<lparr>country := Some c\<rparr> else roundData);
          s1 = (if \<not> truthy (country roundData) then s\<lparr>actualCountry := Some c\<rparr> else s);
          rd2 = (if \<not> truthy (guessCountry rd1) then rd1\<lparr>guessCountry := Some ''Unknown Guess''\<rparr>
                 else rd1);
          s2 = (if \<not> truthy (guessCountry rd1) then s1\<lparr>gs_guessCountry := Some ''Unknown Guess''\<rparr>
                else s1)
      in (rd2, s2\<lparr>roundLocations := (roundLocations s2)(roundKey \<mapsto> rd2)\<rparr>))"

definition buildAnkiCardDataV11 ::
  "host \<Rightarrow> bool \<Rightarrow> page \<Rightarrow> bool \<Rightarrow> gameState \<Rightarrow> cardData option \<times> gameState" where
  "buildAnkiCardDataV11 H hide pg useDefaults s =
     (if \<not> truthy (currentRoundKey s) then (None, s)
      else
        (let roundKey = str (currentRoundKey s)
         in (case roundLocations s roundKey of
               None \<Rightarrow> (None, s)
             | Some roundData \<Rightarrow>
                 if useDefaults then
                   (case fillDefaults pg roundKey roundData s of
                      (rd, s') \<Rightarrow> (Some (cardFields glyphsV11 H hide True roundKey rd s'), s'))
                 else if \<not> truthy (country roundData) \<or> \<not> truthy (guessCountry roundData)
                 then (None, s)
                 else (Some (cardFields glyphsV11 H hide False roundKey roundData s), s))))"

section \<open>Sample data\<close>

text \<open>Records and states on which the theorems below are evaluated.\<close>

definition sampleInfo :: "string \<Rightarrow> string \<Rightarrow> string list \<Rightarrow> enrichment" where
  "sampleInfo domain side langs =
     \<lparr>tld = Some domain, drivingSide = Some side, languages = Some langs,
      currency = Some ''Unknown'', flagUrl = None, continent = Some ''Unknown'',
      capital = Some ''Unknown''\<rparr>"

definition sampleFact :: "string \<Rightarrow> enrichment \<Rightarrow> countryFact" where
  "sampleFact name info =
     \<lparr>cd_country = name, countryCode = None, cd_state = None, city = None,
      additionalInfo = Some info\<rparr>"

definition sampleRound :: "countryFact \<Rightarrow> countryFact \<Rightarrow> roundRecord" where
  "sampleRound a g =
     newRoundRecord\<lparr>country := Some (cd_country a), countryData := Some a,
                guessCountry := Some (cd_country g), guessCountryData := Some g\<rparr>"

definition emptyState :: gameState where
  "emptyState =
     \<lparr>gs_panoId = None, gs_heading = Some (Num 0), gs_pitch = Some (Num 0),
      gs_zoom = Some (Num 0), gs_guessLocation = None, gs_guessCountry = None,
      actualLocation = None, actualCountry = None, gs_score = Some (Num 0),
      gs_countryData = None, gs_guessCountryData = None, gs_missedClues = [],
      gs_locationOverview = None, userMissedClues = [], userReminder = [],
      roundLocations = Map.empty, currentRoundKey = None, cardCreatedForRound = False,
      gameDataToken = None\<rparr>"

text \<open>The state whose only round, under key \<open>k\<close>, is \<open>r\<close>, and is the current one.\<close>

definition stateWith :: "string \<Rightarrow> roundRecord \<Rightarrow> gameState" where
  "stateWith k r = emptyState\<lparr>roundLocations := [k \<mapsto> r], currentRoundKey := Some k\<rparr>"

text \<open>
  A reverse geocoder that places every coordinate in Australia and a country service
  that does not answer; a page of the first round of a game.
\<close>

definition oceanServices :: services where
  "oceanServices =
     \<lparr>nominatim = (\<lambda>c. Some (Some \<lparr>na_country = Some ''Australia'', country_code = None,
                                      na_state = None, county = None, na_city = None,
                                      town = None, village = None\<rparr>)),
      restcountries = (\<lambda>code. None)\<rparr>"

definition samplePage :: "string \<Rightarrow> page" where
  "samplePage k =
     \<lparr>generateRoundKey = k, urlGameToken = None, extractCountryFromDOM = None,
      guessInResultElements = None\<rparr>"

text \<open>
  A host for records without a location, on which the card functions never call it.
\<close>

definition sampleHost :: host where
  "sampleHost =
     \<lparr>toFixed6 = (\<lambda>x. ''0.000000''), numberToString = (\<lambda>x. ''0''),
      parseFloatString = (\<lambda>x. NaN), encodeURIComponent = (\<lambda>x. x)\<rparr>"

section \<open>Properties\<close>

subsection \<open>The sample data\<close>

lemma sample_facts:
  "country (sampleRound x y) = Some (cd_country x)"
  "guessCountry (sampleRound x y) = Some (cd_country y)"
  "countryData (sampleRound x y) = Some x"
  "guessCountryData (sampleRound x y) = Some y"
  "locationOverview (sampleRound x y) = None"
  "additionalInfo (sampleFact n i) = Some i"
  "cd_country (sampleFact n i) = n"
  "languages (sampleInfo d sd l) = Some l"
  "tld (sampleInfo d sd l) = Some d"
  "drivingSide (sampleInfo d sd l) = Some sd"
  by (simp_all add: sampleRound_def sampleFact_def sampleInfo_def newRoundRecord_def)

lemma stateWith_facts:
  "currentRoundKey (stateWith k r) = Some k"
  "roundLocations (stateWith k r) k = Some r"
  "k \<noteq> [] \<Longrightarrow> keyAtArrival pg (stateWith k r) = k"
  by (simp_all add: stateWith_def keyAtArrival_def)

subsection \<open>Rounding to a double\<close>

lemma pow2_pos: "0 < pow2 e"
  by (simp add: pow2_def)

lemma pow2_add: "pow2 (a + b) = pow2 a * pow2 b"
proof -
  have p: "pow2 e = 2 powr (of_int e)" for e
    by (simp add: pow2_def powr_realpow [symmetric] powr_minus_divide)
  show ?thesis by (simp add: p powr_add)
qed

lemma pow2_mono: "a \<le> b \<Longrightarrow> pow2 a \<le> pow2 b"
proof -
  have p: "pow2 e = 2 powr (of_int e)" for e
    by (simp add: pow2_def powr_realpow [symmetric] powr_minus_divide)
  show "a \<le> b \<Longrightarrow> pow2 a \<le> pow2 b" by (simp add: p)
qed

lemma pow2_nat: "0 \<le> e \<Longrightarrow> pow2 e = of_int (2 ^ nat e)"
  by (simp add: pow2_def)

lemma expUp_bounds: "1 \<le> x \<Longrightarrow> 2 ^ expUp x \<le> x \<and> x < 2 ^ Suc (expUp x)"
proof (induction x rule: expUp.induct)
  case (1 x)
  show ?case
  proof (cases "x < 2")
    case True
    with "1.prems" show ?thesis by (subst (1 2) expUp.simps) simp
  next
    case False
    then have "1 \<le> x / 2" by simp
    with "1.IH" False have "2 ^ expUp (x / 2) \<le> x / 2 \<and> x / 2 < 2 ^ Suc (expUp (x / 2))"
      by simp
    with False show ?thesis by (subst (1 2) expUp.simps) simp
  qed
qed

lemma expDown_bounds: "0 < x \<Longrightarrow> x < 1 \<Longrightarrow> 1 \<le> 2 ^ expDown x * x \<and> 2 ^ expDown x * x < 2"
proof (induction x rule: expDown.induct)
  case (1 x)
  show ?case
  proof (cases "2 * x < 1")
    case True
    with "1.IH" "1.prems" have "1 \<le> 2 ^ expDown (2 * x) * (2 * x) \<and> 2 ^ expDown (2 * x) * (2 * x) < 2"
      by simp
    with "1.prems" show ?thesis by (subst (1 2) expDown.simps) (simp add: mult.assoc)
  next
    case False
    then have "expDown (2 * x) = 0" by (subst expDown.simps) simp
    with "1.prems" False show ?thesis by (subst (1 2) expDown.simps) simp
  qed
qed

lemma binaryExponent_bounds:
  assumes "x \<noteq> 0"
  shows "pow2 (binaryExponent x) \<le> \<bar>x\<bar> \<and> \<bar>x\<bar> < pow2 (binaryExponent x + 1)"
proof (cases "1 \<le> \<bar>x\<bar>")
  case True
  with expUp_bounds [of "\<bar>x\<bar>"] show ?thesis
    by (simp add: binaryExponent_def pow2_def nat_add_distrib)
next
  case False
  then have lt: "\<bar>x\<bar> < 1" and pos: "0 < \<bar>x\<bar>" using assms by simp_all
  define n where "n = expDown \<bar>x\<bar>"
  from expDown_bounds [OF pos lt] have b: "1 \<le> 2 ^ n * \<bar>x\<bar>" "2 ^ n * \<bar>x\<bar> < 2"
    by (simp_all add: n_def)
  have "expDown \<bar>x\<bar> = Suc (expDown (2 * \<bar>x\<bar>))"
    using lt pos by (subst expDown.simps) simp
  then have n: "0 < n"
    by (simp add: n_def)
  have e: "binaryExponent x = - int n"
    using False by (simp add: binaryExponent_def n_def)
  have "pow2 (- int n) = 1 / 2 ^ n"
    using n by (simp add: pow2_def)
  moreover have "pow2 (- int n + 1) = 2 / 2 ^ n"
  proof -
    have "pow2 (- int n + 1) = pow2 (- int n) * pow2 1" by (rule pow2_add)
    also have "\<dots> = 2 / 2 ^ n" using n by (simp add: pow2_def)
    finally show ?thesis .
  qed
  moreover have "1 / 2 ^ n \<le> \<bar>x\<bar>" using b(1) by (simp add: field_simps)
  moreover have "\<bar>x\<bar> < 2 / 2 ^ n" using b(2) by (simp add: field_simps)
  ultimately show ?thesis by (simp add: e)
qed

lemma roundHalfEven_le: "x \<le> of_int n \<Longrightarrow> roundHalfEven x \<le> n"
  unfolding roundHalfEven_def Let_def
  by (auto simp: not_less) linarith+

lemma roundHalfEven_ge: "of_int n \<le> x \<Longrightarrow> n \<le> roundHalfEven x"
  unfolding roundHalfEven_def Let_def
  by (auto simp: not_less) linarith+

lemma roundHalfEven_int: "roundHalfEven (of_int n) = n"
  by (simp add: roundHalfEven_def)


lemma binaryExponent_less:
  assumes "x \<noteq> 0" and "\<bar>x\<bar> < pow2 k"
  shows "binaryExponent x < k"
proof (rule ccontr)
  assume "\<not> binaryExponent x < k"
  then have "pow2 k \<le> pow2 (binaryExponent x)" by (simp add: pow2_mono)
  with binaryExponent_bounds [OF assms(1)] assms(2) show False by simp
qed

lemma binaryExponent_ge:
  assumes "pow2 k \<le> \<bar>x\<bar>"
  shows "k \<le> binaryExponent x"
proof (rule ccontr)
  assume "\<not> k \<le> binaryExponent x"
  then have "pow2 (binaryExponent x + 1) \<le> pow2 k" by (simp add: pow2_mono)
  moreover have "x \<noteq> 0" using assms pow2_pos [of k] by auto
  ultimately show False using binaryExponent_bounds [of x] assms by simp
qed

lemma binaryExponent_eq:
  "pow2 k \<le> \<bar>x\<bar> \<Longrightarrow> \<bar>x\<bar> < pow2 (k + 1) \<Longrightarrow> binaryExponent x = k"
  using binaryExponent_ge [of k x] binaryExponent_less [of x "k + 1"] pow2_pos [of k]
  by (cases "x = 0") auto

lemma pow2_diff_int:
  assumes "q' \<le> q"
  shows "pow2 q = of_int (2 ^ nat (q - q')) * pow2 q'"
proof -
  have "pow2 q = pow2 ((q - q') + q')" by simp
  also have "\<dots> = pow2 (q - q') * pow2 q'" by (rule pow2_add)
  also have "pow2 (q - q') = of_int (2 ^ nat (q - q'))" using assms by (simp add: pow2_nat)
  finally show ?thesis .
qed

text \<open>
  Rounding does not pass a double: a real whose magnitude is at most the double
  \<open>N * 2^q\<close> is rounded to a finite value whose magnitude is at most \<open>N * 2^q\<close>.
\<close>

lemma roundDouble_le_double:
  assumes le: "\<bar>d\<bar> \<le> of_int N * pow2 q" and N: "N < 2 ^ 53" and q: "- 1074 \<le> q" "q \<le> 970"
  shows "\<exists>y. roundDouble d = Num y \<and> \<bar>y\<bar> \<le> of_int N * pow2 q"
proof (cases "d = 0")
  case True
  with le show ?thesis by (simp add: roundDouble_def)
next
  case False
  define q' where "q' = max (binaryExponent d - 52) (- 1074)"
  define u where "u = pow2 q'"
  define y where "y = u * of_int (roundHalfEven (d / u))"
  have u: "0 < u" by (simp add: u_def pow2_pos)
  have "of_int N * pow2 q < pow2 53 * pow2 q"
    using N pow2_pos [of q] by (simp add: pow2_def)
  then have "\<bar>d\<bar> < pow2 (53 + q)" using le by (simp add: pow2_add)
  with False have "binaryExponent d < 53 + q" by (rule binaryExponent_less)
  with q have q': "q' \<le> q" by (simp add: q'_def)
  define M where "M = N * 2 ^ nat (q - q')"
  have t: "of_int N * pow2 q = of_int M * u"
    using pow2_diff_int [OF q'] by (simp add: M_def u_def)
  have "\<bar>d\<bar> \<le> of_int M * u"
    using le by (simp only: t)
  then have "\<bar>d / u\<bar> \<le> of_int M"
    using u by (simp add: field_simps)
  then have "d / u \<le> of_int M" and "of_int (- M) \<le> d / u"
    unfolding abs_le_iff by simp_all
  then have "roundHalfEven (d / u) \<le> M" and "- M \<le> roundHalfEven (d / u)"
    by (simp_all only: roundHalfEven_le roundHalfEven_ge)
  then have "\<bar>roundHalfEven (d / u)\<bar> \<le> M" by simp
  then have "\<bar>real_of_int (roundHalfEven (d / u))\<bar> \<le> real_of_int M"
    by linarith
  then have yb: "\<bar>y\<bar> \<le> of_int M * u"
    using u by (simp add: y_def abs_mult mult.commute)
  have "of_int N * pow2 q < pow2 53 * pow2 970"
  proof -
    have "0 < of_int N * pow2 q" using le False by simp
    then have "0 \<le> N" using pow2_pos [of q] by (simp add: zero_less_mult_iff)
    then have "of_int N * pow2 q \<le> of_int N * pow2 970"
      using pow2_mono [OF q(2)] by (simp add: mult_left_mono)
    also have "\<dots> < pow2 53 * pow2 970"
      using N pow2_pos [of 970] by (simp add: pow2_def)
    finally show ?thesis .
  qed
  also have "\<dots> < 2 ^ 1024" by (simp add: pow2_def)
  finally have "of_int M * u < 2 ^ 1024" by (simp add: t)
  with yb have "\<not> 2 ^ 1024 \<le> y" and "\<not> y \<le> - (2 ^ 1024)" by simp_all
  then have "roundDouble d = Num y"
    using False by (simp add: roundDouble_def Let_def q'_def [symmetric] u_def [symmetric] y_def [symmetric])
  with yb t show ?thesis by simp
qed

text \<open>The doubles that the two literals of the override table denote.\<close>

lemma override_literals:
  "roundDouble 40.97989806962013 = Num (5767407927375691 / 2 ^ 47)"
  "roundDouble 0.2 = Num (3602879701896397 / 2 ^ 54)"
  by (simp_all add: roundDouble_def binaryExponent_def expUp.simps expDown.simps pow2_def
      roundHalfEven_def Let_def)

text \<open>
  The arithmetic of the link of a card rounds at each step, as the runtime does: the
  heading \<open>0.005\<close> plus \<open>360\<close> is rounded to a double below \<open>360.005\<close>, so the heading
  printed after \<open>Math.round(heading * 100) / 100\<close> is \<open>0\<close>, not \<open>0.01\<close>.
\<close>

lemma heading_rounding:
  "roundDouble 0.005 = Num (5764607523034235 / 2 ^ 60)"
  "jsAdd (jsMod (roundDouble 0.005) (Num 360)) (Num 360) = Num (3166637468459991 / 2 ^ 43)"
  "jsDiv (mathRound (jsMul (jsMod (jsAdd (jsMod (roundDouble 0.005) (Num 360)) (Num 360)) (Num 360))
                        (Num 100)))
         (Num 100) = Num 0"
proof -
  show a: "roundDouble 0.005 = Num (5764607523034235 / 2 ^ 60)"
    by (simp add: roundDouble_def binaryExponent_def expUp.simps expDown.simps pow2_def
        roundHalfEven_def Let_def)
  have m: "jsMod (Num (5764607523034235 / 2 ^ 60)) (Num 360) = Num (5764607523034235 / 2 ^ 60)"
    by (simp add: truncateReal_def)
  have r: "roundDouble (5764607523034235 / 2 ^ 60 + 360) = Num (3166637468459991 / 2 ^ 43)"
    by (simp add: roundDouble_def binaryExponent_def expUp.simps expDown.simps pow2_def
        roundHalfEven_def Let_def)
  show b: "jsAdd (jsMod (roundDouble 0.005) (Num 360)) (Num 360) = Num (3166637468459991 / 2 ^ 43)"
    unfolding a m jsAdd.simps r ..
  have m2: "jsMod (Num (3166637468459991 / 2 ^ 43)) (Num 360) = Num (43980465111 / 2 ^ 43)"
    by (simp add: truncateReal_def)
  have r2: "roundDouble (43980465111 / 2 ^ 43 * 100) = Num (1099511627775 / 2 ^ 41)"
    by (simp add: roundDouble_def binaryExponent_def expUp.simps expDown.simps pow2_def
        roundHalfEven_def Let_def)
  show "jsDiv (mathRound (jsMul (jsMod (jsAdd (jsMod (roundDouble 0.005) (Num 360)) (Num 360)) (Num 360))
                        (Num 100)))
         (Num 100) = Num 0"
    unfolding b m2 jsMul.simps r2
    by (simp add: roundDouble_def)
qed

subsection \<open>The panorama-id decoder\<close>

lemma panoIdLoop_length:
  "length (panoIdLoop s i acc) = length acc + (length s - i) div 2"
proof (induction s i acc rule: panoIdLoop.induct)
  case (1 s i acc)
  show ?case
  proof (cases "i + 1 < length s")
    case True
    then have "(length s - i) div 2 = Suc ((length s - (i + 2)) div 2)"
      by (simp add: div_if)
    with True "1.IH" show ?thesis
      by (subst panoIdLoop.simps) simp
  next
    case False
    then have "(length s - i) div 2 = 0"
      by (simp add: div_if)
    with False show ?thesis
      by (subst panoIdLoop.simps) simp
  qed
qed

lemma panoIdLoop_prefix:
  "k < length acc \<Longrightarrow> panoIdLoop s i acc ! k = acc ! k"
proof (induction s i acc rule: panoIdLoop.induct)
  case (1 s i acc)
  show ?case
  proof (cases "i + 1 < length s")
    case True
    with "1.IH" "1.prems" show ?thesis
      by (subst panoIdLoop.simps) (simp add: nth_append)
  next
    case False
    then show ?thesis
      by (subst panoIdLoop.simps) simp
  qed
qed

lemma panoIdLoop_nth:
  "even i \<Longrightarrow> i div 2 = length acc \<Longrightarrow> length acc \<le> k \<Longrightarrow> k < length s div 2 \<Longrightarrow>
   panoIdLoop s i acc ! k = fromCharCode (parseInt16 [s ! (2 * k), s ! (2 * k + 1)])"
proof (induction s i acc arbitrary: rule: panoIdLoop.induct)
  case (1 s i acc)
  from "1.prems" have i: "i = 2 * length acc" by auto
  from "1.prems" have lt: "i + 1 < length s" by (auto simp: i)
  let ?c = "fromCharCode (parseInt16 (substring s i (i + 2)))"
  have sub: "substring s i (i + 2) = [s ! i, s ! (i + 1)]"
  proof -
    have "drop i s = s ! i # drop (Suc i) s"
      using lt by (simp add: Cons_nth_drop_Suc)
    moreover have "drop (Suc i) s = s ! (Suc i) # drop (Suc (Suc i)) s"
      using lt by (simp add: Cons_nth_drop_Suc)
    ultimately show ?thesis by (simp add: substring_def)
  qed
  have unfold: "panoIdLoop s i acc = panoIdLoop s (i + 2) (acc @ [?c])"
    using lt by (subst panoIdLoop.simps) simp
  show ?case
  proof (cases "k = length acc")
    case True
    have "panoIdLoop s (i + 2) (acc @ [?c]) ! k = (acc @ [?c]) ! k"
      by (rule panoIdLoop_prefix) (simp add: True)
    then have "panoIdLoop s i acc ! k = ?c"
      by (simp add: unfold True)
    moreover have "s ! (2 * k) = s ! i" and "s ! (2 * k + 1) = s ! (i + 1)"
      by (simp_all add: True i)
    ultimately show ?thesis
      using sub by simp
  next
    case False
    have "panoIdLoop s (i + 2) (acc @ [?c]) ! k =
          fromCharCode (parseInt16 [s ! (2 * k), s ! (2 * k + 1)])"
    proof (rule "1.IH")
      show "i < length s" using lt by simp
      show "\<not> length s \<le> i + 1" using lt by simp
      show "even (i + 2)" using "1.prems" by simp
      show "(i + 2) div 2 = length (acc @ [?c])" by (simp add: i)
      show "length (acc @ [?c]) \<le> k" using False "1.prems" by simp
      show "k < length s div 2" by fact
    qed
    then show ?thesis by (simp add: unfold)
  qed
qed

text \<open>
  Claim C10. The panorama-id decoder always returns a string: the empty string for a
  missing, empty or non-hexadecimal argument, and for a hexadecimal string of length
  \<open>n\<close> exactly \<open>n div 2\<close> characters, the \<open>k\<close>-th being the character whose code is
  the value of the \<open>k\<close>-th pair of digits; a last unpaired digit is dropped.
\<close>

theorem panoIdDecoder_total:
  "panoIdDecoder None = [] \<and> panoIdDecoder (Some []) = [] \<and>
   (\<not> isHexString s \<longrightarrow> panoIdDecoder (Some s) = []) \<and>
   (isHexString s \<longrightarrow>
      length (panoIdDecoder (Some s)) = length s div 2 \<and>
      (\<forall>k < length s div 2.
         panoIdDecoder (Some s) ! k =
           fromCharCode (parseInt16 [s ! (2 * k), s ! (2 * k + 1)])))"
proof -
  have hex: "isHexString s \<Longrightarrow> panoIdDecoder (Some s) = panoIdLoop s 0 []"
    by (auto simp: panoIdDecoder_def isHexString_def)
  have len: "length (panoIdLoop s 0 []) = length s div 2"
    by (simp add: panoIdLoop_length)
  have nth: "\<forall>k < length s div 2.
      panoIdLoop s 0 [] ! k = fromCharCode (parseInt16 [s ! (2 * k), s ! (2 * k + 1)])"
    by (simp add: panoIdLoop_nth)
  show ?thesis
    using hex len nth by (simp add: panoIdDecoder_def)
qed

theorem panoIdDecoder_total_witness:
  "isHexString ''4a6F7'' \<and> length (panoIdDecoder (Some ''4a6F7'')) = 2 \<and>
   panoIdDecoder (Some ''4a6F7'') ! 0 = CHR ''J'' \<and>
   panoIdDecoder (Some ''4a6F7'') ! 1 = CHR ''o'' \<and>
   \<not> isHexString ''xyz'' \<and> panoIdDecoder (Some ''xyz'') = []"
proof -
  have h: "isHexString ''4a6F7''"
    by (simp add: isHexString_def hexDigitValue_def)
  have n: "\<not> isHexString ''xyz''"
    by (simp add: isHexString_def hexDigitValue_def)
  have c0: "fromCharCode (parseInt16 ''4a'') = CHR ''J''"
    by code_simp
  have c1: "fromCharCode (parseInt16 ''6F'') = CHR ''o''"
    by code_simp
  from panoIdDecoder_total [of "''4a6F7''"] h
  have a: "length (panoIdDecoder (Some ''4a6F7'')) = 2"
    and b: "\<forall>k < 2. panoIdDecoder (Some ''4a6F7'') ! k =
           fromCharCode (parseInt16 [''4a6F7'' ! (2 * k), ''4a6F7'' ! (2 * k + 1)])"
    by simp_all
  from b have b0: "panoIdDecoder (Some ''4a6F7'') ! 0 = fromCharCode (parseInt16 ''4a'')"
    by (drule_tac x = 0 in spec) simp
  from b have b1: "panoIdDecoder (Some ''4a6F7'') ! 1 = fromCharCode (parseInt16 ''6F'')"
    by (drule_tac x = 1 in spec) simp
  from panoIdDecoder_total [of "''xyz''"] n
  have e: "panoIdDecoder (Some ''xyz'') = []"
    by simp
  show ?thesis
    using h n a b0 b1 c0 c1 e by simp
qed

subsection \<open>The coordinate sanitizer\<close>

text \<open>
  Claim C7, as the code has it. The sanitizer is total. It returns the invalid marker
  exactly when one of the parsed arguments is NaN. Otherwise it returns a coordinate
  whose components are finite, with \<open>-90 \<le> lat \<le> 90\<close> and \<open>-180 \<le> lng \<le> 180\<close>,
  obtained by clamping: a finite argument is clamped into the range, and an infinite
  argument is not rejected but clamped to the bound on its side.
\<close>

theorem sanitizeCoordinates_clamps:
  "(sanitizeCoordinates a b = None) = (a = NaN \<or> b = NaN) \<and>
   (\<forall>c. sanitizeCoordinates a b = Some c \<longrightarrow>
      (\<exists>x y. lat c = Num x \<and> lng c = Num y \<and>
         - 90 \<le> x \<and> x \<le> 90 \<and> - 180 \<le> y \<and> y \<le> 180 \<and>
         x = (case a of Num r \<Rightarrow> max (- 90) (min 90 r) | PInf \<Rightarrow> 90 | NInf \<Rightarrow> - 90 | NaN \<Rightarrow> 0) \<and>
         y = (case b of Num r \<Rightarrow> max (- 180) (min 180 r) | PInf \<Rightarrow> 180 | NInf \<Rightarrow> - 180 | NaN \<Rightarrow> 0)))"
proof (intro conjI allI impI)
  show "(sanitizeCoordinates a b = None) = (a = NaN \<or> b = NaN)"
    by (simp add: sanitizeCoordinates_def isNaN_def)
next
  fix c
  assume some: "sanitizeCoordinates a b = Some c"
  then have a: "a \<noteq> NaN" and b: "b \<noteq> NaN"
    by (auto simp: sanitizeCoordinates_def isNaN_def split: if_splits)
  from some a b have la: "lat c = mathMax (Num (- 90)) (mathMin (Num 90) a)"
    and lo: "lng c = mathMax (Num (- 180)) (mathMin (Num 180) b)"
    by (auto simp: sanitizeCoordinates_def isNaN_def)
  let ?x = "case a of Num r \<Rightarrow> max (- 90) (min 90 r) | PInf \<Rightarrow> 90 | NInf \<Rightarrow> - 90 | NaN \<Rightarrow> 0"
  let ?y = "case b of Num r \<Rightarrow> max (- 180) (min 180 r) | PInf \<Rightarrow> 180 | NInf \<Rightarrow> - 180 | NaN \<Rightarrow> 0"
  have x: "lat c = Num ?x" using a la by (cases a) simp_all
  have y: "lng c = Num ?y" using b lo by (cases b) simp_all
  have xr: "- 90 \<le> ?x \<and> ?x \<le> 90" by (cases a) auto
  have yr: "- 180 \<le> ?y \<and> ?y \<le> 180" by (cases b) auto
  show "\<exists>x y. lat c = Num x \<and> lng c = Num y \<and>
         - 90 \<le> x \<and> x \<le> 90 \<and> - 180 \<le> y \<and> y \<le> 180 \<and>
         x = ?x \<and> y = ?y"
    using x y xr yr by blast
qed

theorem sanitizeCoordinates_clamps_witness:
  "sanitizeCoordinates (Num 123) NInf = Some \<lparr>lat = Num 90, lng = Num (- 180)\<rparr> \<and>
   sanitizeCoordinates NaN (Num 2) = None"
proof -
  have n: "sanitizeCoordinates NaN (Num 2) = None"
    using sanitizeCoordinates_clamps [of NaN "Num 2"] by simp
  obtain c where c: "sanitizeCoordinates (Num 123) NInf = Some c"
    using sanitizeCoordinates_clamps [of "Num 123" NInf] by (cases "sanitizeCoordinates (Num 123) NInf") auto
  with sanitizeCoordinates_clamps [of "Num 123" NInf]
  have "lat c = Num 90 \<and> lng c = Num (- 180)"
    by auto
  then have "c = \<lparr>lat = Num 90, lng = Num (- 180)\<rparr>"
    by (cases c) simp
  with c n show ?thesis by simp
qed

text \<open>
  The claim as stated fails at an infinite latitude: \<open>isNaN(Infinity)\<close> is false, so
  the argument is clamped to \<open>90\<close> and a coordinate is returned.
\<close>

theorem sanitizeCoordinates_infinity_counterexample:
  "sanitizeCoordinates PInf (Num 0) = Some \<lparr>lat = Num 90, lng = Num 0\<rparr>"
  by (simp add: sanitizeCoordinates_def isNaN_def)

subsection \<open>Clue generation\<close>

lemma countryClues_differ_nonempty:
  "truthy (country r) \<Longrightarrow> truthy (guessCountry r) \<Longrightarrow> country r \<noteq> guessCountry r \<Longrightarrow>
   countryClues r \<noteq> []"
  by (auto simp: countryClues_def Let_def)

lemma countryClues_same_empty:
  "country r = guessCountry r \<Longrightarrow> countryClues r = []"
  by (simp add: countryClues_def)

lemma countryClues_absent_empty:
  "\<not> truthy (country r) \<or> \<not> truthy (guessCountry r) \<Longrightarrow> countryClues r = []"
  by (auto simp: countryClues_def)

lemma prepareCountryClues_record:
  "resolveRoundKey rk s = Some k \<Longrightarrow> roundLocations s k = Some r \<Longrightarrow>
   roundLocations (prepareCountryClues rk s) k = Some (r\<lparr>missedClues := Some (countryClues r)\<rparr>) \<and>
   gs_missedClues (prepareCountryClues rk s) = countryClues r"
  by (simp add: prepareCountryClues_def)

text \<open>
  Claim C3. For a round record whose actual country and guess country are both present
  (truthy), the clue list that clue generation stores on the record is empty exactly
  when the two country strings are equal. When an exception is caught, the handler adds
  the fallback clue, which names the actual country, to the clues pushed so far, so
  the list is not empty then either.
\<close>

theorem clues_empty_iff_countries_equal:
  assumes "truthy (country r)" and "truthy (guessCountry r)"
    and "resolveRoundKey rk s = Some k" and "roundLocations s k = Some r"
  shows "(\<exists>r'. roundLocations (prepareCountryClues rk s) k = Some r' \<and>
            missedClues r' = Some (countryClues r)) \<and>
         (countryClues r = [] \<longleftrightarrow> country r = guessCountry r) \<and>
         cluesAfterError r pushed \<noteq> [] \<and>
         last (cluesAfterError r pushed) = fallbackClue r \<and>
         clue_text (fallbackClue r) =
           ''Pay attention to distinctive features in '' @ str (country r) @ ''.''"
proof -
  have a: "\<exists>r'. roundLocations (prepareCountryClues rk s) k = Some r' \<and>
            missedClues r' = Some (countryClues r)"
    using prepareCountryClues_record [OF assms(3) assms(4)] by simp
  have b: "countryClues r = [] \<longleftrightarrow> country r = guessCountry r"
    using assms(1,2) countryClues_differ_nonempty [of r] countryClues_same_empty [of r]
    by blast
  have c: "cluesAfterError r pushed \<noteq> [] \<and> last (cluesAfterError r pushed) = fallbackClue r"
    by (simp add: cluesAfterError_def)
  have d: "clue_text (fallbackClue r) =
           ''Pay attention to distinctive features in '' @ str (country r) @ ''.''"
    using assms(1) by (simp add: fallbackClue_def)
  from a b c d show ?thesis by blast
qed

theorem clues_empty_iff_countries_equal_witness:
  "countryClues (sampleRound (sampleFact ''France'' (sampleInfo ''.fr'' ''right'' [''French'']))
                             (sampleFact ''France'' (sampleInfo ''.fr'' ''right'' [''French'']))) = [] \<and>
   countryClues (sampleRound (sampleFact ''France'' (sampleInfo ''.fr'' ''right'' [''French'']))
                             (sampleFact ''Spain'' (sampleInfo ''.es'' ''right'' [''Spanish''])))
     \<noteq> []"
proof -
  let ?f = "sampleFact ''France'' (sampleInfo ''.fr'' ''right'' [''French''])"
  let ?e = "sampleFact ''Spain'' (sampleInfo ''.es'' ''right'' [''Spanish''])"
  have 1: "countryClues (sampleRound ?f ?f) = []"
    using clues_empty_iff_countries_equal
      [of "sampleRound ?f ?f" "Some ''g-round-1''" "stateWith ''g-round-1'' (sampleRound ?f ?f)"
          "''g-round-1''"]
    by (simp add: sampleRound_def sampleFact_def newRoundRecord_def stateWith_def truthy_def
        resolveRoundKey_def)
  have 2: "countryClues (sampleRound ?f ?e) \<noteq> []"
    using clues_empty_iff_countries_equal
      [of "sampleRound ?f ?e" "Some ''g-round-1''" "stateWith ''g-round-1'' (sampleRound ?f ?e)"
          "''g-round-1''"]
    by (simp add: sampleRound_def sampleFact_def newRoundRecord_def stateWith_def truthy_def
        resolveRoundKey_def)
  from 1 2 show ?thesis by simp
qed

text \<open>
  Claim C9. When the actual country or the guess country of a round record is absent
  (falsy), clue generation stores the empty list on the record, whatever clue list it
  held before, and in \<open>gameState.missedClues\<close>.
\<close>

theorem clues_reset_when_country_absent:
  assumes "resolveRoundKey rk s = Some k" and "roundLocations s k = Some r"
    and "\<not> truthy (country r) \<or> \<not> truthy (guessCountry r)"
  shows "roundLocations (prepareCountryClues rk s) k = Some (r\<lparr>missedClues := Some []\<rparr>) \<and>
         gs_missedClues (prepareCountryClues rk s) = []"
  using prepareCountryClues_record [OF assms(1) assms(2)] countryClues_absent_empty [OF assms(3)]
  by simp

theorem clues_reset_when_country_absent_witness:
  "roundLocations
     (prepareCountryClues None
        (stateWith ''g-round-2''
           (newRoundRecord\<lparr>country := Some ''Peru'',
                       missedClues := Some [generalClue ''Peru'' ''Chile'']\<rparr>)))
     ''g-round-2'' =
   Some (newRoundRecord\<lparr>country := Some ''Peru'', missedClues := Some []\<rparr>)"
  using clues_reset_when_country_absent
    [of None "stateWith ''g-round-2''
           (newRoundRecord\<lparr>country := Some ''Peru'',
                       missedClues := Some [generalClue ''Peru'' ''Chile'']\<rparr>)"
        "''g-round-2''"
        "newRoundRecord\<lparr>country := Some ''Peru'',
                       missedClues := Some [generalClue ''Peru'' ''Chile'']\<rparr>"]
  by (simp add: stateWith_def emptyState_def newRoundRecord_def resolveRoundKey_def truthy_def)

subsection \<open>The language clue\<close>

lemma arraysHaveSameElements_distinct:
  assumes "distinct arr1" and "distinct arr2"
  shows "arraysHaveSameElements arr1 arr2 \<longleftrightarrow> set arr1 = set arr2"
proof
  assume same: "arraysHaveSameElements arr1 arr2"
  then have len: "length arr1 = length arr2" and sub: "set arr2 \<subseteq> set arr1"
    by (auto simp: arraysHaveSameElements_def list_all_iff split: if_splits)
  have "card (set arr2) = card (set arr1)"
    using assms len by (simp add: distinct_card)
  with sub have "set arr2 = set arr1"
    by (intro card_subset_eq) simp_all
  then show "set arr1 = set arr2"
    by simp
next
  assume eq: "set arr1 = set arr2"
  then have "length arr1 = length arr2"
    using assms by (metis distinct_card)
  with eq show "arraysHaveSameElements arr1 arr2"
    by (simp add: arraysHaveSameElements_def list_all_iff)
qed

lemma languageClueEmitted_iff:
  assumes "truthy (country r)" and "truthy (guessCountry r)" and "country r \<noteq> guessCountry r"
    and "countryData r = Some cd" and "guessCountryData r = Some gd"
    and "additionalInfo cd = Some a" and "additionalInfo gd = Some b"
    and "languages a = Some actualLangs" and "languages b = Some guessLangs"
  shows "languageClueEmitted r \<longleftrightarrow> \<not> arraysHaveSameElements actualLangs guessLangs"
proof -
  let ?c = "str (country r)" and ?g = "str (guessCountry r)"
  have no_d: "\<not> list_ex (\<lambda>c. category c = ''Language'') (drivingSideClue ?c ?g a b)"
    by (simp add: drivingSideClue_def)
  have no_t: "\<not> list_ex (\<lambda>c. category c = ''Language'') (tldClue ?c ?g a b)"
    by (simp add: tldClue_def)
  have no_o: "\<not> list_ex (\<lambda>c. category c = ''Language'') (overviewClues ?c r)"
    by (simp add: overviewClues_def split: option.splits)
  have no_g: "category (generalClue ?c ?g) \<noteq> ''Language''"
    by (simp add: generalClue_def)
  have lang: "list_ex (\<lambda>c. category c = ''Language'') (languageClue ?c ?g a b) \<longleftrightarrow>
              \<not> arraysHaveSameElements actualLangs guessLangs"
    using assms(8,9) by (simp add: languageClue_def)
  have gen: "genericClues ?c ?g r =
             drivingSideClue ?c ?g a b @ languageClue ?c ?g a b @ tldClue ?c ?g a b"
    using assms(4-7) by (simp add: genericClues_def)
  have "languageClueEmitted r \<longleftrightarrow>
        list_ex (\<lambda>c. category c = ''Language'') (genericClues ?c ?g r @ overviewClues ?c r)"
    using assms(1-3) no_g by (simp add: languageClueEmitted_def countryClues_def Let_def)
  also have "\<dots> \<longleftrightarrow> list_ex (\<lambda>c. category c = ''Language'') (languageClue ?c ?g a b)"
    using no_d no_t no_o by (simp add: gen)
  finally show ?thesis using lang by simp
qed

text \<open>
  On language lists without repeated entries the comparison is set equality: when the
  two countries are present and differ and both country facts carry an enrichment
  object with a language list, the language clue is emitted exactly when the two
  lists differ as sets, whatever their order.
\<close>

lemma language_clue_iff_sets_differ:
  assumes "truthy (country r)" and "truthy (guessCountry r)" and "country r \<noteq> guessCountry r"
    and "countryData r = Some cd" and "guessCountryData r = Some gd"
    and "additionalInfo cd = Some a" and "additionalInfo gd = Some b"
    and "languages a = Some actualLangs" and "languages b = Some guessLangs"
    and "distinct actualLangs" and "distinct guessLangs"
  shows "languageClueEmitted r \<longleftrightarrow> set actualLangs \<noteq> set guessLangs"
  using languageClueEmitted_iff [OF assms(1-9)]
    arraysHaveSameElements_distinct [OF assms(10,11)]
  by simp



subsection \<open>The override table\<close>

lemma overrideLoop_first_match:
  "overrideLoop tbl la lo =
     (case filter (\<lambda>ov. withinTolerance ov la lo) tbl of [] \<Rightarrow> None | ov # _ \<Rightarrow> Some ov)"
  by (induction tbl) simp_all

lemma override_table: "COUNTRY_OVERRIDES = [guatemalaOverride]"
  by (simp add: guatemalaOverride_def COUNTRY_OVERRIDES_def)

lemma guatemalaOverride_facts:
  "ov_country guatemalaOverride = ''Guatemala''"
  "lat (coordinates guatemalaOverride) = Num (5767407927375691 / 2 ^ 47)"
  "lng (coordinates guatemalaOverride) = Num (- 67.5)"
  "toleranceOf guatemalaOverride = Num (3602879701896397 / 2 ^ 54)"
  unfolding guatemalaOverride_def COUNTRY_OVERRIDES_def toleranceOf_def override_literals
  by simp_all

lemma within_double_tolerance:
  assumes "\<bar>d\<bar> \<le> 3602879701896397 / 2 ^ 54"
  shows "jsLe (mathAbs (roundDouble d)) (Num (3602879701896397 / 2 ^ 54))"
proof -
  have t: "(3602879701896397 / 2 ^ 54 :: real) = of_int 3602879701896397 * pow2 (- 54)"
    by (simp add: pow2_def)
  have "\<exists>y. roundDouble d = Num y \<and> \<bar>y\<bar> \<le> of_int 3602879701896397 * pow2 (- 54)"
    using assms unfolding t by (intro roundDouble_le_double) simp_all
  then obtain y where "roundDouble d = Num y" and "\<bar>y\<bar> \<le> 3602879701896397 / 2 ^ 54"
    unfolding t [symmetric] by blast
  then show ?thesis by simp
qed

lemma guatemalaOverride_within:
  assumes "\<bar>la - 5767407927375691 / 2 ^ 47\<bar> \<le> 3602879701896397 / 2 ^ 54"
    and "\<bar>lo - (- 67.5)\<bar> \<le> 3602879701896397 / 2 ^ 54"
  shows "checkCountryOverride (Num la) (Num lo) = Some guatemalaOverride"
  unfolding checkCountryOverride_def override_table overrideLoop.simps withinTolerance_def guatemalaOverride_facts
    jsSub.simps
  using within_double_tolerance [OF assms(1)] within_double_tolerance [OF assms(2)]
  by simp


lemma sanitize_in_range:
  "- 90 \<le> la \<Longrightarrow> la \<le> 90 \<Longrightarrow> - 180 \<le> lo \<Longrightarrow> lo \<le> 180 \<Longrightarrow>
   sanitizeCoordinates (Num la) (Num lo) = Some \<lparr>lat = Num la, lng = Num lo\<rparr>"
  by (simp add: sanitizeCoordinates_def isNaN_def)

lemma processCountryOverride_actual:
  "actualCountry (processCountryOverride ov rk s) = Some (ov_country ov)"
  by (simp add: processCountryOverride_def Let_def)

lemma processCountryOverride_record:
  "currentRoundKey s = Some k \<Longrightarrow> k \<noteq> [] \<Longrightarrow> roundLocations s k = Some rd \<Longrightarrow>
   roundLocations (processCountryOverride ov None s) k =
     Some (rd\<lparr>country := Some (ov_country ov), countryData := Some (overrideFact ov)\<rparr>)"
  by (simp add: processCountryOverride_def Let_def truthy_def)

lemma getCountryFromCoordinates_guess:
  "getCountryFromCoordinates svc pg la lo True s =
     (case sanitizeCoordinates la lo of
        None \<Rightarrow> (ReturnsNull, s, [])
      | Some c \<Rightarrow> resolveGeocode svc pg c True s)"
  by (simp add: getCountryFromCoordinates_def split: option.split)

lemma reverseGeocode_calls:
  "\<exists>rest. snd (reverseGeocode svc c) = NominatimCall c # rest"
  by (simp add: reverseGeocode_def Let_def split: option.split)

lemma resolveGeocode_calls:
  "\<exists>rest. snd (snd (resolveGeocode svc pg c isGuess s)) = NominatimCall c # rest"
proof -
  obtain r calls where g: "reverseGeocode svc c = (r, calls)"
    by (cases "reverseGeocode svc c")
  with reverseGeocode_calls [of svc c] obtain rest where calls: "calls = NominatimCall c # rest"
    by auto
  show ?thesis
  proof (cases r)
    case None
    then show ?thesis by (simp add: resolveGeocode_def g calls)
  next
    case (Some result)
    obtain s' calls' where "recordCountryResult pg result isGuess s = (s', calls')"
      by (cases "recordCountryResult pg result isGuess s")
    then show ?thesis by (simp add: resolveGeocode_def g calls Some)
  qed
qed

text \<open>
  Claim C2, as the code has it. The code measures the distance in doubles: let \<open>c\<close> and
  \<open>t\<close> be the doubles that the literals \<open>40.97989806962013\<close> and \<open>0.2\<close> denote. A
  coordinate of two Numbers whose latitude differs from \<open>c\<close> by at most \<open>t\<close>, and whose
  longitude differs from \<open>-67.5\<close> by at most \<open>t\<close>, matches the override entry for
  Guatemala. For such a coordinate \<open>getCountryInfoFromCoordinates\<close> (version 1.0.0, which
  serves both roles) returns the entry's country fact and calls no service. In version
  1.1.0 \<open>getCountryFromCoordinates\<close> for the actual location calls no service either,
  returns \<open>undefined\<close> and records the entry's fact as the actual country, in the state
  and on the current round's record; for a guess it does not use the entry and
  resolves the coordinate with the reverse geocoder, which it calls.
\<close>

theorem override_short_circuit:
  assumes "roundDouble 40.97989806962013 = Num c" and "roundDouble 0.2 = Num t"
    and "\<bar>la - c\<bar> \<le> t" and "\<bar>lo - (- 67.5)\<bar> \<le> t"
  shows "c = 5767407927375691 / 2 ^ 47 \<and> t = 3602879701896397 / 2 ^ 54 \<and>
         (\<exists>ov. ov \<in> set COUNTRY_OVERRIDES \<and> ov_country ov = ''Guatemala'' \<and>
           checkCountryOverride (Num la) (Num lo) = Some ov \<and>
           getCountryInfoFromCoordinates svc (Num la) (Num lo) = (Some (overrideFact ov), []) \<and>
           cd_country (overrideFact ov) = ''Guatemala'' \<and>
           getCountryFromCoordinates svc pg (Num la) (Num lo) False s =
             (ReturnsUndefined, processCountryOverride ov None s, []) \<and>
           actualCountry (processCountryOverride ov None s) = Some ''Guatemala'' \<and>
           (\<forall>k rd. currentRoundKey s = Some k \<and> k \<noteq> [] \<and> roundLocations s k = Some rd \<longrightarrow>
              roundLocations (processCountryOverride ov None s) k =
                Some (rd\<lparr>country := Some ''Guatemala'', countryData := Some (overrideFact ov)\<rparr>))) \<and>
         getCountryFromCoordinates svc pg (Num la) (Num lo) True s =
           resolveGeocode svc pg \<lparr>lat = Num la, lng = Num lo\<rparr> True s \<and>
         (\<exists>rest. snd (snd (getCountryFromCoordinates svc pg (Num la) (Num lo) True s)) =
                   NominatimCall \<lparr>lat = Num la, lng = Num lo\<rparr> # rest)"
proof -
  have c: "c = 5767407927375691 / 2 ^ 47" and t: "t = 3602879701896397 / 2 ^ 54"
    using assms(1,2) unfolding override_literals by simp_all
  have la: "\<bar>la - 5767407927375691 / 2 ^ 47\<bar> \<le> 3602879701896397 / 2 ^ 54"
    and lo: "\<bar>lo - (- 67.5)\<bar> \<le> 3602879701896397 / 2 ^ 54"
    using assms(3,4) unfolding c t by simp_all
  have hit: "checkCountryOverride (Num la) (Num lo) = Some guatemalaOverride"
    using la lo by (rule guatemalaOverride_within)
  have name: "ov_country guatemalaOverride = ''Guatemala''"
    by (rule guatemalaOverride_facts)
  have "- 90 \<le> la" "la \<le> 90" "- 180 \<le> lo" "lo \<le> 180"
    using la lo unfolding abs_le_iff by simp_all
  then have san: "sanitizeCoordinates (Num la) (Num lo) = Some \<lparr>lat = Num la, lng = Num lo\<rparr>"
    by (rule sanitize_in_range)
  have 1: "getCountryInfoFromCoordinates svc (Num la) (Num lo) = (Some (overrideFact guatemalaOverride), [])"
    by (simp add: getCountryInfoFromCoordinates_def san hit)
  have 2: "getCountryFromCoordinates svc pg (Num la) (Num lo) False s =
             (ReturnsUndefined, processCountryOverride guatemalaOverride None s, [])"
    by (simp add: getCountryFromCoordinates_def san hit)
  have 3: "cd_country (overrideFact guatemalaOverride) = ''Guatemala''"
    by (simp add: overrideFact_def name)
  have 4: "actualCountry (processCountryOverride guatemalaOverride None s) = Some ''Guatemala''"
    by (simp add: processCountryOverride_actual name)
  have 5: "\<forall>k rd. currentRoundKey s = Some k \<and> k \<noteq> [] \<and> roundLocations s k = Some rd \<longrightarrow>
              roundLocations (processCountryOverride guatemalaOverride None s) k =
                Some (rd\<lparr>country := Some ''Guatemala'', countryData := Some (overrideFact guatemalaOverride)\<rparr>)"
    using processCountryOverride_record [of s _ _ guatemalaOverride] name by auto
  have 6: "getCountryFromCoordinates svc pg (Num la) (Num lo) True s =
           resolveGeocode svc pg \<lparr>lat = Num la, lng = Num lo\<rparr> True s"
    by (simp add: getCountryFromCoordinates_guess san)
  have 7: "\<exists>rest. snd (snd (getCountryFromCoordinates svc pg (Num la) (Num lo) True s)) =
                   NominatimCall \<lparr>lat = Num la, lng = Num lo\<rparr> # rest"
    unfolding 6 by (rule resolveGeocode_calls)
  have "guatemalaOverride \<in> set COUNTRY_OVERRIDES" unfolding override_table by simp
  with name hit 1 2 3 4 5 have
    "\<exists>ov. ov \<in> set COUNTRY_OVERRIDES \<and> ov_country ov = ''Guatemala'' \<and>
           checkCountryOverride (Num la) (Num lo) = Some ov \<and>
           getCountryInfoFromCoordinates svc (Num la) (Num lo) = (Some (overrideFact ov), []) \<and>
           cd_country (overrideFact ov) = ''Guatemala'' \<and>
           getCountryFromCoordinates svc pg (Num la) (Num lo) False s =
             (ReturnsUndefined, processCountryOverride ov None s, []) \<and>
           actualCountry (processCountryOverride ov None s) = Some ''Guatemala'' \<and>
           (\<forall>k rd. currentRoundKey s = Some k \<and> k \<noteq> [] \<and> roundLocations s k = Some rd \<longrightarrow>
              roundLocations (processCountryOverride ov None s) k =
                Some (rd\<lparr>country := Some ''Guatemala'', countryData := Some (overrideFact ov)\<rparr>))"
    by blast
  with c t 6 7 show ?thesis by blast
qed


theorem override_short_circuit_witness:
  "roundDouble 40.97989806962013 = Num (5767407927375691 / 2 ^ 47) \<and>
   roundDouble 0.2 = Num (3602879701896397 / 2 ^ 54) \<and>
   fst (getCountryInfoFromCoordinates oceanServices (Num 41.125) (Num (- 67.375))) \<noteq> None \<and>
   snd (getCountryInfoFromCoordinates oceanServices (Num 41.125) (Num (- 67.375))) = [] \<and>
   snd (snd (getCountryFromCoordinates oceanServices (samplePage ''g-round-1'') (Num 41.125)
          (Num (- 67.375)) False (stateWith ''g-round-1'' newRoundRecord))) = [] \<and>
   map_option country
     (roundLocations
        (fst (snd (getCountryFromCoordinates oceanServices (samplePage ''g-round-1'') (Num 41.125)
                     (Num (- 67.375)) False (stateWith ''g-round-1'' newRoundRecord))))
        ''g-round-1'') = Some (Some ''Guatemala'') \<and>
   hd (snd (snd (getCountryFromCoordinates oceanServices (samplePage ''g-round-1'') (Num 41.125)
          (Num (- 67.375)) True (stateWith ''g-round-1'' newRoundRecord)))) =
     NominatimCall \<lparr>lat = Num 41.125, lng = Num (- 67.375)\<rparr>"
proof -
  have a: "\<bar>41.125 - 5767407927375691 / 2 ^ 47\<bar> \<le> (3602879701896397 / 2 ^ 54 :: real)" by simp
  have b: "\<bar>- 67.375 - (- 67.5)\<bar> \<le> (3602879701896397 / 2 ^ 54 :: real)" by simp
  have k: "currentRoundKey (stateWith ''g-round-1'' newRoundRecord) = Some ''g-round-1''"
    and r: "roundLocations (stateWith ''g-round-1'' newRoundRecord) ''g-round-1'' = Some newRoundRecord"
    by (simp_all add: stateWith_def)
  from override_short_circuit [OF override_literals a b, of oceanServices "samplePage ''g-round-1''"
      "stateWith ''g-round-1'' newRoundRecord"] k r
  show ?thesis
    unfolding override_literals by auto
qed

lemma reverseGeocode_ocean:
  "reverseGeocode oceanServices c =
     (Some \<lparr>cd_country = ''Australia'', countryCode = None, cd_state = None, city = None,
             additionalInfo = Some unknownInfo\<rparr>, [NominatimCall c])"
  by (simp add: reverseGeocode_def oceanServices_def truthy_def Let_def)

lemma getCountryFromCoordinates_no_override:
  "sanitizeCoordinates la lo = Some c \<Longrightarrow> checkCountryOverride la lo = None \<Longrightarrow>
   getCountryFromCoordinates svc pg la lo isGuess s = resolveGeocode svc pg c isGuess s"
  by (simp add: getCountryFromCoordinates_def)

lemma getCountryFromCoordinates_override:
  "sanitizeCoordinates la lo = Some c \<Longrightarrow> checkCountryOverride la lo = Some ov \<Longrightarrow>
   getCountryFromCoordinates svc pg la lo False s =
     (ReturnsUndefined, processCountryOverride ov None s, [])"
  by (simp add: getCountryFromCoordinates_def)

lemma checkCountryOverride_centre:
  "checkCountryOverride (roundDouble 40.97989806962013) (Num (- 67.5)) = Some guatemalaOverride"
  unfolding override_literals by (rule guatemalaOverride_within) simp_all

text \<open>
  The double nearest to \<open>41.17989806962013\<close> is within \<open>0.2\<close> of \<open>40.97989806962013\<close>, but
  its difference to the centre of the entry, computed in doubles, is more than the
  tolerance.
\<close>

lemma checkCountryOverride_boundary:
  "checkCountryOverride (Num (5795555425046757 / 2 ^ 47)) (Num (- 67.5)) = None"
proof -
  have d: "roundDouble (5795555425046757 / 2 ^ 47 - 5767407927375691 / 2 ^ 47) =
           Num (14073748835533 / 2 ^ 46)"
    by (simp add: roundDouble_def binaryExponent_def expDown.simps pow2_def roundHalfEven_def Let_def)
  show ?thesis
    unfolding checkCountryOverride_def override_table overrideLoop.simps withinTolerance_def guatemalaOverride_facts
      jsSub.simps d
    by simp
qed

text \<open>
  The claim as stated fails in three ways. In version 1.1.0, at the centre of the
  override entry itself, \<open>getCountryFromCoordinates(lat, lng, true)\<close> asks the reverse
  geocoder and records the country it names as the guess, and
  \<open>getCountryFromCoordinates(lat, lng)\<close> returns \<open>undefined\<close>, not the entry's fact. In
  version 1.0.0 the latitude \<open>41.17989806962013\<close>, a double that is within \<open>0.2\<close> of
  \<open>40.97989806962013\<close>, does not match the entry, and the reverse geocoder is called.
\<close>

theorem override_short_circuit_counterexample:
  "fst (getCountryFromCoordinates oceanServices (samplePage ''g-round-1'')
          (roundDouble 40.97989806962013) (Num (- 67.5)) True (stateWith ''g-round-1'' newRoundRecord)) =
     ReturnsFact \<lparr>cd_country = ''Australia'', countryCode = None, cd_state = None, city = None,
                  additionalInfo = Some unknownInfo\<rparr> \<and>
   snd (snd (getCountryFromCoordinates oceanServices (samplePage ''g-round-1'')
          (roundDouble 40.97989806962013) (Num (- 67.5)) True (stateWith ''g-round-1'' newRoundRecord))) =
     [NominatimCall \<lparr>lat = roundDouble 40.97989806962013, lng = Num (- 67.5)\<rparr>] \<and>
   map_option guessCountry
     (roundLocations
        (fst (snd (getCountryFromCoordinates oceanServices (samplePage ''g-round-1'')
           (roundDouble 40.97989806962013) (Num (- 67.5)) True (stateWith ''g-round-1'' newRoundRecord))))
        ''g-round-1'') = Some (Some ''Australia'') \<and>
   fst (getCountryFromCoordinates oceanServices (samplePage ''g-round-1'')
          (roundDouble 40.97989806962013) (Num (- 67.5)) False (stateWith ''g-round-1'' newRoundRecord)) =
     ReturnsUndefined \<and>
   \<bar>5795555425046757 / 2 ^ 47 - 40.97989806962013\<bar> \<le> (0.2 :: real) \<and>
   getCountryInfoFromCoordinates oceanServices (Num (5795555425046757 / 2 ^ 47)) (Num (- 67.5)) =
     (Some \<lparr>cd_country = ''Australia'', countryCode = None, cd_state = None, city = None,
             additionalInfo = Some unknownInfo\<rparr>,
      [NominatimCall \<lparr>lat = Num (5795555425046757 / 2 ^ 47), lng = Num (- 67.5)\<rparr>])"
proof -
  let ?l = "roundDouble 40.97989806962013"
  let ?c = "\<lparr>lat = ?l, lng = Num (- 67.5)\<rparr>"
  let ?f = "\<lparr>cd_country = ''Australia'', countryCode = None, cd_state = None, city = None,
                  additionalInfo = Some unknownInfo\<rparr>"
  let ?s = "stateWith ''g-round-1'' newRoundRecord"
  let ?pg = "samplePage ''g-round-1''"
  have san: "sanitizeCoordinates ?l (Num (- 67.5)) = Some ?c"
    unfolding override_literals by (simp add: sanitizeCoordinates_def isNaN_def)
  have rec: "recordCountryResult ?pg ?f True ?s =
             (?s\<lparr>roundLocations := [''g-round-1'' \<mapsto> newRoundRecord\<lparr>guessCountry := Some ''Australia'',
                                                      guessCountryData := Some ?f\<rparr>],
                  gs_guessCountry := Some ''Australia'', gs_guessCountryData := Some ?f\<rparr>, [])"
    by (simp add: recordCountryResult_def keyAtArrival_def stateWith_def emptyState_def
        newRoundRecord_def truthy_def Let_def)
  have res: "resolveGeocode oceanServices ?pg ?c True ?s =
             (ReturnsFact ?f,
              ?s\<lparr>roundLocations := [''g-round-1'' \<mapsto> newRoundRecord\<lparr>guessCountry := Some ''Australia'',
                                                      guessCountryData := Some ?f\<rparr>],
                  gs_guessCountry := Some ''Australia'', gs_guessCountryData := Some ?f\<rparr>,
              [NominatimCall ?c])"
    by (simp only: resolveGeocode_def reverseGeocode_ocean rec prod.case option.case append.simps)
  have all: "getCountryFromCoordinates oceanServices ?pg ?l (Num (- 67.5)) True ?s =
             (ReturnsFact ?f,
              ?s\<lparr>roundLocations := [''g-round-1'' \<mapsto> newRoundRecord\<lparr>guessCountry := Some ''Australia'',
                                                      guessCountryData := Some ?f\<rparr>],
                  gs_guessCountry := Some ''Australia'', gs_guessCountryData := Some ?f\<rparr>,
              [NominatimCall ?c])"
    by (simp only: getCountryFromCoordinates_guess san res option.case)
  have act: "getCountryFromCoordinates oceanServices ?pg ?l (Num (- 67.5)) False ?s =
             (ReturnsUndefined, processCountryOverride guatemalaOverride None ?s, [])"
    using san checkCountryOverride_centre by (rule getCountryFromCoordinates_override)
  have near: "\<bar>5795555425046757 / 2 ^ 47 - 40.97989806962013\<bar> \<le> (0.2 :: real)"
    by simp
  have sanb: "sanitizeCoordinates (Num (5795555425046757 / 2 ^ 47)) (Num (- 67.5)) =
              Some \<lparr>lat = Num (5795555425046757 / 2 ^ 47), lng = Num (- 67.5)\<rparr>"
    by (rule sanitize_in_range) simp_all
  have geo: "getCountryInfoFromCoordinates oceanServices (Num (5795555425046757 / 2 ^ 47)) (Num (- 67.5)) =
     (Some ?f, [NominatimCall \<lparr>lat = Num (5795555425046757 / 2 ^ 47), lng = Num (- 67.5)\<rparr>])"
    by (simp only: getCountryInfoFromCoordinates_def sanb checkCountryOverride_boundary option.case
        reverseGeocode_ocean)
  have g1: "fst (getCountryFromCoordinates oceanServices ?pg ?l (Num (- 67.5)) True ?s) = ReturnsFact ?f"
    and g2: "snd (snd (getCountryFromCoordinates oceanServices ?pg ?l (Num (- 67.5)) True ?s)) =
             [NominatimCall ?c]"
    and g3: "map_option guessCountry
     (roundLocations (fst (snd (getCountryFromCoordinates oceanServices ?pg ?l (Num (- 67.5)) True ?s)))
        ''g-round-1'') = Some (Some ''Australia'')"
    unfolding all by (simp_all add: stateWith_def)
  have g4: "fst (getCountryFromCoordinates oceanServices ?pg ?l (Num (- 67.5)) False ?s) = ReturnsUndefined"
    unfolding act by simp
  from g1 g2 g3 g4 near geo show ?thesis by (intro conjI)
qed

subsection \<open>Late geocoding results\<close>

lemma prepareCountryClues_frame:
  "resolveRoundKey rk s \<noteq> Some k \<Longrightarrow>
   roundLocations (prepareCountryClues rk s) k = roundLocations s k"
  by (auto simp: prepareCountryClues_def split: option.splits)

lemma fetchLocationOverview_cases:
  "fst (fetchLocationOverview pg rk s) = s \<or>
   (\<exists>k. resolveRoundKey rk s = Some k \<and>
      fst (fetchLocationOverview pg rk s) = prepareCountryClues (Some k) s)"
  by (simp add: fetchLocationOverview_def Let_def split: option.split)


lemma resolveRoundKey_Some:
  "resolveRoundKey (Some k0) s = Some k \<Longrightarrow> currentRoundKey s = Some k0 \<Longrightarrow> k = k0"
  by (auto simp: resolveRoundKey_def truthy_def split: if_splits)

lemma fetchLocationOverview_frame_current:
  assumes "k \<noteq> k0" and "currentRoundKey s = Some k0"
  shows "roundLocations (fst (fetchLocationOverview pg (Some k0) s)) k = roundLocations s k"
proof -
  from fetchLocationOverview_cases [of pg "Some k0" s]
  show ?thesis
  proof
    assume "fst (fetchLocationOverview pg (Some k0) s) = s"
    then show ?thesis by simp
  next
    assume "\<exists>k'. resolveRoundKey (Some k0) s = Some k' \<and>
      fst (fetchLocationOverview pg (Some k0) s) = prepareCountryClues (Some k') s"
    then obtain k' where r: "resolveRoundKey (Some k0) s = Some k'"
      and f: "fst (fetchLocationOverview pg (Some k0) s) = prepareCountryClues (Some k') s"
      by blast
    from r assms(2) have k': "k' = k0" by (rule resolveRoundKey_Some)
    have "resolveRoundKey (Some k0) s \<noteq> Some k"
      using r k' assms(1) by simp
    then show ?thesis
      unfolding f k' by (rule prepareCountryClues_frame)
  qed
qed


lemma recordCountryResult_frame:
  assumes "k \<noteq> keyAtArrival pg s"
  shows "roundLocations (fst (recordCountryResult pg result isGuess s)) k = roundLocations s k"
proof -
  define k0 where "k0 = keyAtArrival pg s"
  define s1 where "s1 = s\<lparr>currentRoundKey := Some k0\<rparr>"
  define s3 where "s3 =
    (if isGuess then
       (case roundLocations s1 k0 of
          None \<Rightarrow> s1
        | Some rd \<Rightarrow>
            s1\<lparr>roundLocations :=
                  (roundLocations s1)(k0 \<mapsto> rd\<lparr>guessCountry := Some (cd_country result),
                                               guessCountryData := Some result\<rparr>)\<rparr>)
         \<lparr>gs_guessCountry := Some (cd_country result), gs_guessCountryData := Some result\<rparr>
     else
       (case roundLocations s1 k0 of
          None \<Rightarrow> s1
        | Some rd \<Rightarrow>
            s1\<lparr>roundLocations :=
                  (roundLocations s1)(k0 \<mapsto> rd\<lparr>country := Some (cd_country result),
                                               countryData := Some result\<rparr>)\<rparr>)
         \<lparr>actualCountry := Some (cd_country result), gs_countryData := Some result\<rparr>)"
  have s1c: "currentRoundKey s1 = Some k0"
    by (simp add: s1_def)
  have cur: "currentRoundKey s3 = Some k0"
    by (simp add: s3_def s1_def split: option.split)
  have loc: "roundLocations s3 k = roundLocations s k"
    using assms by (simp add: s3_def s1_def k0_def split: option.split)
  have res: "fst (recordCountryResult pg result isGuess s) = s3 \<or>
             fst (recordCountryResult pg result isGuess s) =
               fst (fetchLocationOverview pg (Some k0) s3)"
    unfolding recordCountryResult_def Let_def k0_def [symmetric] s1_def [symmetric]
    by (simp add: s3_def s1c split: option.split)
  have "roundLocations (fst (fetchLocationOverview pg (Some k0) s3)) k = roundLocations s3 k"
    using assms cur by (intro fetchLocationOverview_frame_current) (simp_all add: k0_def)
  with res loc show ?thesis by auto
qed


lemma resolveGeocode_frame:
  assumes "k \<noteq> keyAtArrival pg s"
  shows "roundLocations (fst (snd (resolveGeocode svc pg coords isGuess s))) k = roundLocations s k"
proof -
  obtain r calls where g: "reverseGeocode svc coords = (r, calls)"
    by (cases "reverseGeocode svc coords")
  show ?thesis
  proof (cases r)
    case None
    then show ?thesis by (simp add: resolveGeocode_def g)
  next
    case (Some result)
    obtain s' calls' where rc: "recordCountryResult pg result isGuess s = (s', calls')"
      by (cases "recordCountryResult pg result isGuess s")
    have "roundLocations s' k = roundLocations s k"
      using recordCountryResult_frame [OF assms, of result isGuess] by (simp add: rc)
    then show ?thesis by (simp add: resolveGeocode_def g Some rc)
  qed
qed

lemma googleMapsCountryArrived_frame:
  assumes "currentRoundKey s \<noteq> Some k"
  shows "roundLocations (googleMapsCountryArrived cd vc s) k = roundLocations s k"
proof (cases cd)
  case None
  then show ?thesis by (simp add: googleMapsCountryArrived_def)
next
  case (Some f)
  show ?thesis
  proof (cases "truthy (currentRoundKey s)")
    case False
    then show ?thesis by (simp add: googleMapsCountryArrived_def Some Let_def)
  next
    case True
    then obtain k0 where k0: "currentRoundKey s = Some k0"
      by (cases "currentRoundKey s") (simp_all add: truthy_def)
    with assms have ne: "k \<noteq> k0" by simp
    show ?thesis
      using True ne
      by (simp add: googleMapsCountryArrived_def Some Let_def k0 str_def split: option.split)
  qed
qed

text \<open>
  Claim C5. A geocoding request is pending while the round advances to a new key
  \<open>k'\<close>, in version 1.1.0 by \<open>gameLoop\<close> and in version 1.0.0 by \<open>updateGameState\<close>. When
  the answer arrives afterwards, what \<open>getCountryFromCoordinates\<close> (version 1.1.0)
  and the callback of \<open>processGoogleMapsResponse\<close> (version 1.0.0) store goes to the
  round that is current then: the record of every other key \<open>k\<close>, so that of the
  superseded round, is what it was before the round advanced.
\<close>

theorem late_result_spares_superseded_round:
  assumes "generateRoundKey pgNew = k'" and "k' \<noteq> []" and "k \<noteq> k'"
  shows "roundLocations
           (fst (snd (resolveGeocode svc pg coords isGuess (gameLoopNewRound pgNew s)))) k =
         roundLocations s k \<and>
         roundLocations (googleMapsCountryArrived cd vc (startNewRound pgNew s)) k =
         roundLocations s k"
proof
  have key: "keyAtArrival pg (gameLoopNewRound pgNew s) = k'"
    using assms(1,2) by (simp add: keyAtArrival_def gameLoopNewRound_def)
  have "roundLocations (fst (snd (resolveGeocode svc pg coords isGuess (gameLoopNewRound pgNew s)))) k =
        roundLocations (gameLoopNewRound pgNew s) k"
    by (rule resolveGeocode_frame) (simp add: key assms(3))
  then show "roundLocations
           (fst (snd (resolveGeocode svc pg coords isGuess (gameLoopNewRound pgNew s)))) k =
         roundLocations s k"
    by (simp add: gameLoopNewRound_def)
next
  have cur: "currentRoundKey (startNewRound pgNew s) = Some k'"
    using assms(1) by (simp add: startNewRound_def Let_def)
  have "roundLocations (googleMapsCountryArrived cd vc (startNewRound pgNew s)) k =
        roundLocations (startNewRound pgNew s) k"
    by (rule googleMapsCountryArrived_frame) (simp add: cur assms(3) [symmetric])
  also have "\<dots> = roundLocations s k"
    using assms(1,3) by (simp add: startNewRound_def Let_def split: option.splits)
  finally show "roundLocations (googleMapsCountryArrived cd vc (startNewRound pgNew s)) k =
         roundLocations s k" .
qed

theorem late_result_spares_superseded_round_witness:
  "roundLocations
     (fst (snd (resolveGeocode oceanServices (samplePage ''g-round-2'')
                  \<lparr>lat = Num 10, lng = Num 20\<rparr> False
                  (gameLoopNewRound (samplePage ''g-round-2'')
                     (stateWith ''g-round-1'' (newRoundRecord\<lparr>country := Some ''Peru''\<rparr>))))))
     ''g-round-1'' = Some (newRoundRecord\<lparr>country := Some ''Peru''\<rparr>) \<and>
   roundLocations
     (googleMapsCountryArrived (Some (sampleFact ''Australia'' unknownInfo))
        \<lparr>lat = Num 10, lng = Num 20\<rparr>
        (startNewRound (samplePage ''g-round-2'')
           (stateWith ''g-round-1'' (newRoundRecord\<lparr>country := Some ''Peru''\<rparr>))))
     ''g-round-1'' = Some (newRoundRecord\<lparr>country := Some ''Peru''\<rparr>)"
  using late_result_spares_superseded_round
    [of "samplePage ''g-round-2''" "''g-round-2''" "''g-round-1''" oceanServices
        "samplePage ''g-round-2''" "\<lparr>lat = Num 10, lng = Num 20\<rparr>" False
        "stateWith ''g-round-1'' (newRoundRecord\<lparr>country := Some ''Peru''\<rparr>)"
        "Some (sampleFact ''Australia'' unknownInfo)" "\<lparr>lat = Num 10, lng = Num 20\<rparr>"]
  by (simp add: samplePage_def stateWith_def)

subsection \<open>Merging country facts\<close>

lemma prepareCountryClues_country:
  "map_option country (roundLocations (prepareCountryClues rk s) k) =
     map_option country (roundLocations s k) \<and>
   map_option guessCountry (roundLocations (prepareCountryClues rk s) k) =
     map_option guessCountry (roundLocations s k)"
  by (simp add: prepareCountryClues_def split: option.split)

lemma fetchLocationOverview_country:
  "map_option country (roundLocations (fst (fetchLocationOverview pg rk s)) k) =
     map_option country (roundLocations s k) \<and>
   map_option guessCountry (roundLocations (fst (fetchLocationOverview pg rk s)) k) =
     map_option guessCountry (roundLocations s k)"
  using fetchLocationOverview_cases [of pg rk s] prepareCountryClues_country
  by auto

lemma recordCountryResult_country:
  assumes "roundLocations s (keyAtArrival pg s) = Some rd"
  shows "map_option country
           (roundLocations (fst (recordCountryResult pg result False s)) (keyAtArrival pg s)) =
         Some (Some (cd_country result))"
proof -
  define k0 where "k0 = keyAtArrival pg s"
  define s3 where "s3 =
    s\<lparr>currentRoundKey := Some k0,
      roundLocations := (roundLocations s)(k0 \<mapsto> rd\<lparr>country := Some (cd_country result),
                                                  countryData := Some result\<rparr>),
      actualCountry := Some (cd_country result), gs_countryData := Some result\<rparr>"
  have rd: "roundLocations s k0 = Some rd"
    using assms by (simp add: k0_def)
  have res: "fst (recordCountryResult pg result False s) = s3 \<or>
             fst (recordCountryResult pg result False s) =
               fst (fetchLocationOverview pg (Some k0) s3)"
    unfolding recordCountryResult_def Let_def k0_def [symmetric]
    by (simp add: s3_def rd)
  have "map_option country (roundLocations s3 k0) = Some (Some (cd_country result))"
    by (simp add: s3_def)
  with res fetchLocationOverview_country [of pg "Some k0" s3 k0] show ?thesis
    unfolding k0_def [symmetric] by auto
qed

lemma recordCountryResult_guessCountry:
  assumes "roundLocations s (keyAtArrival pg s) = Some rd"
  shows "map_option guessCountry
           (roundLocations (fst (recordCountryResult pg result True s)) (keyAtArrival pg s)) =
         Some (Some (cd_country result))"
proof -
  define k0 where "k0 = keyAtArrival pg s"
  define s3 where "s3 =
    s\<lparr>currentRoundKey := Some k0,
      roundLocations := (roundLocations s)(k0 \<mapsto> rd\<lparr>guessCountry := Some (cd_country result),
                                                  guessCountryData := Some result\<rparr>),
      gs_guessCountry := Some (cd_country result), gs_guessCountryData := Some result\<rparr>"
  have rd: "roundLocations s k0 = Some rd"
    using assms by (simp add: k0_def)
  have res: "fst (recordCountryResult pg result True s) = s3 \<or>
             fst (recordCountryResult pg result True s) =
               fst (fetchLocationOverview pg (Some k0) s3)"
    unfolding recordCountryResult_def Let_def k0_def [symmetric]
    by (simp add: s3_def rd)
  have "map_option guessCountry (roundLocations s3 k0) = Some (Some (cd_country result))"
    by (simp add: s3_def)
  with res fetchLocationOverview_country [of pg "Some k0" s3 k0] show ?thesis
    unfolding k0_def [symmetric] by auto
qed

lemma checkCountryOverride_Guatemala:
  "checkCountryOverride a b = Some ov \<Longrightarrow> ov_country ov = ''Guatemala''"
  unfolding checkCountryOverride_def override_table
  by (auto simp: guatemalaOverride_facts split: if_splits)

lemma overrideForRecord_Guatemala:
  "overrideForRecord rd = Some ov \<Longrightarrow> ov_country ov = ''Guatemala''"
  by (auto simp: overrideForRecord_def checkCountryOverride_Guatemala split: if_splits option.splits)

lemma resolveGeocode_fact:
  assumes "fst (resolveGeocode svc pg c isGuess s) = ReturnsFact result"
  shows "fst (snd (resolveGeocode svc pg c isGuess s)) = fst (recordCountryResult pg result isGuess s)"
proof -
  obtain r calls where g: "reverseGeocode svc c = (r, calls)"
    by (cases "reverseGeocode svc c")
  show ?thesis
  proof (cases r)
    case None
    with assms show ?thesis by (simp add: resolveGeocode_def g)
  next
    case (Some result')
    obtain s' calls' where rc: "recordCountryResult pg result' isGuess s = (s', calls')"
      by (cases "recordCountryResult pg result' isGuess s")
    from assms have "result' = result"
      by (simp add: resolveGeocode_def g Some rc)
    with rc show ?thesis
      by (simp add: resolveGeocode_def g Some)
  qed
qed

lemma getCountryFromCoordinates_fact:
  assumes "fst (getCountryFromCoordinates svc pg la lo isGuess s) = ReturnsFact result"
  shows "fst (snd (getCountryFromCoordinates svc pg la lo isGuess s)) =
         fst (recordCountryResult pg result isGuess s)"
proof (cases "sanitizeCoordinates la lo")
  case None
  with assms show ?thesis by (simp add: getCountryFromCoordinates_def)
next
  case (Some c)
  have "getCountryFromCoordinates svc pg la lo isGuess s = resolveGeocode svc pg c isGuess s"
    using assms by (simp add: getCountryFromCoordinates_def Some split: option.splits if_splits)
  with assms resolveGeocode_fact [of svc pg c isGuess s result] show ?thesis
    by simp
qed

lemma domFallback_country_set:
  "roundLocations s k = Some rd \<Longrightarrow> truthy (country rd) \<Longrightarrow> domFallback pg k s = s"
  by (simp add: domFallback_def)

lemma domFallback_no_text:
  "\<not> truthy (extractCountryFromDOM pg) \<Longrightarrow> domFallback pg k s = s"
  by (simp add: domFallback_def split: option.split)

lemma domFallback_text:
  assumes "roundLocations s k = Some rd" and "\<not> truthy (country rd)"
    and "truthy (extractCountryFromDOM pg)"
  shows "map_option country (roundLocations (domFallback pg k s) k) =
           Some (extractCountryFromDOM pg) \<and>
         map_option guessCountry (roundLocations (domFallback pg k s) k) =
           Some (case guessInResultElements pg of None \<Rightarrow> guessCountry rd | Some g \<Rightarrow> Some g)"
proof -
  obtain c where c: "extractCountryFromDOM pg = Some c"
    using assms(3) by (cases "extractCountryFromDOM pg") (simp_all add: truthy_def)
  have pc: "map_option country (roundLocations (prepareCountryClues rk s0) k) =
            map_option country (roundLocations s0 k)"
    and pg: "map_option guessCountry (roundLocations (prepareCountryClues rk s0) k) =
            map_option guessCountry (roundLocations s0 k)" for rk s0
    using prepareCountryClues_country [of rk s0 k] by simp_all
  show ?thesis
    using assms
    by (simp add: domFallback_def Let_def c str_def pc pg del: map_option_eq_Some
        split: option.split)
qed

lemma handleRoundEnd_existing:
  assumes "generateRoundKey pg = key" and "roundLocations s key = Some rd"
  shows "handleRoundEnd pg s =
         domFallback pg key
           ((overrideAtRoundEnd key (s\<lparr>currentRoundKey := Some key\<rparr>))
              \<lparr>userMissedClues := [], userReminder := [], cardCreatedForRound := False\<rparr>)"
  using assms by (simp add: handleRoundEnd_def Let_def)

lemma handleRoundEnd_no_override_state:
  assumes "generateRoundKey pg = key" and "roundLocations s key = Some rd"
    and "overrideForRecord rd = None"
  shows "handleRoundEnd pg s =
         domFallback pg key
           (s\<lparr>currentRoundKey := Some key, userMissedClues := [], userReminder := [],
               cardCreatedForRound := False\<rparr>)"
proof -
  have "overrideAtRoundEnd key (s\<lparr>currentRoundKey := Some key\<rparr>) = s\<lparr>currentRoundKey := Some key\<rparr>"
    using assms(2,3) by (simp add: overrideAtRoundEnd_def)
  then show ?thesis
    by (simp add: handleRoundEnd_existing [OF assms(1,2)])
qed

lemma handleRoundEnd_no_override:
  assumes "generateRoundKey pg = key" and "roundLocations s key = Some rd"
    and "truthy (country rd)" and "overrideForRecord rd = None"
  shows "roundLocations (handleRoundEnd pg s) key = Some rd"
proof -
  let ?s4 = "s\<lparr>currentRoundKey := Some key, userMissedClues := [], userReminder := [],
               cardCreatedForRound := False\<rparr>"
  have r: "roundLocations ?s4 key = Some rd"
    using assms(2) by simp
  have "domFallback pg key ?s4 = ?s4"
    using r assms(3) by (rule domFallback_country_set)
  then show ?thesis
    using r by (simp add: handleRoundEnd_no_override_state [OF assms(1,2,4)])
qed

lemma handleRoundEnd_no_text:
  assumes "generateRoundKey pg = key" and "roundLocations s key = Some rd"
    and "\<not> truthy (extractCountryFromDOM pg)" and "overrideForRecord rd = None"
  shows "roundLocations (handleRoundEnd pg s) key = Some rd"
  using assms(2)
  by (simp add: handleRoundEnd_no_override_state [OF assms(1,2,4)] domFallback_no_text [OF assms(3)])

lemma handleRoundEnd_text:
  assumes "generateRoundKey pg = key" and "roundLocations s key = Some rd"
    and "\<not> truthy (country rd)" and "truthy (extractCountryFromDOM pg)"
    and "overrideForRecord rd = None"
  shows "map_option country (roundLocations (handleRoundEnd pg s) key) =
           Some (extractCountryFromDOM pg) \<and>
         map_option guessCountry (roundLocations (handleRoundEnd pg s) key) =
           Some (case guessInResultElements pg of None \<Rightarrow> guessCountry rd | Some g \<Rightarrow> Some g)"
proof -
  let ?s4 = "s\<lparr>currentRoundKey := Some key, userMissedClues := [], userReminder := [],
               cardCreatedForRound := False\<rparr>"
  have r: "roundLocations ?s4 key = Some rd"
    using assms(2) by simp
  show ?thesis
    unfolding handleRoundEnd_no_override_state [OF assms(1,2,5)]
    using r assms(3,4) by (rule domFallback_text)
qed

lemma handleRoundEnd_override:
  assumes "generateRoundKey pg = key" and "roundLocations s key = Some rd"
    and "overrideForRecord rd = Some ov"
  shows "roundLocations (handleRoundEnd pg s) key =
         Some (rd\<lparr>country := Some ''Guatemala'', countryData := Some (overrideFact ov)\<rparr>)"
proof -
  have name: "ov_country ov = ''Guatemala''"
    using assms(3) by (rule overrideForRecord_Guatemala)
  let ?s1 = "s\<lparr>currentRoundKey := Some key\<rparr>"
  let ?rd = "rd\<lparr>country := Some ''Guatemala'', countryData := Some (overrideFact ov)\<rparr>"
  let ?s3 = "?s1\<lparr>roundLocations := (roundLocations s)(key \<mapsto> ?rd),
                 actualCountry := Some ''Guatemala'', gs_countryData := Some (overrideFact ov)\<rparr>"
  have o: "overrideAtRoundEnd key ?s1 = ?s3"
    using assms(2,3) by (simp add: overrideAtRoundEnd_def name)
  let ?s4 = "?s3\<lparr>userMissedClues := [], userReminder := [], cardCreatedForRound := False\<rparr>"
  have r: "roundLocations ?s4 key = Some ?rd"
    by simp
  have "domFallback pg key ?s4 = ?s4"
    using r by (rule domFallback_country_set) (simp add: truthy_def)
  then show ?thesis
    using r by (simp add: handleRoundEnd_existing [OF assms(1,2)] o)
qed

text \<open>
  Claim C1, as the code has it. Neither function compares the ranks of sources; what
  each does to the actual country and the guess country of a round's record depends
  only on what the record holds and on what arrives.

  \<^item> When \<open>getCountryFromCoordinates\<close> (version 1.1.0) returns a country fact from the
    geocoder, the record of the current round has that fact's country as its actual
    country (as its guess country, for a guess), whatever it held before.
  \<^item> At the end of a round (\<open>handleRoundEnd\<close>, version 1.0.0), an override entry that
    matches the record's location replaces the record's actual country and country
    data, whatever they were.
  \<^item> When no override entry matches and the record has an actual country, or has
    none and the page shows none, the record is left as it is.
  \<^item> When no override entry matches, the record has no actual country and the page
    shows one, the record's actual country becomes the one of the page; and the guess
    that the page shows, if it shows one, replaces the record's guess country,
    whatever it was.
\<close>

theorem country_merge_last_writer:
  assumes "roundLocations s (keyAtArrival pg s) = Some rd"
    and "generateRoundKey pg' = key" and "roundLocations s' key = Some rd'"
  shows "(fst (getCountryFromCoordinates svc pg la lo False s) = ReturnsFact result \<longrightarrow>
            map_option country
              (roundLocations (fst (snd (getCountryFromCoordinates svc pg la lo False s)))
                 (keyAtArrival pg s)) = Some (Some (cd_country result))) \<and>
         (fst (getCountryFromCoordinates svc pg la lo True s) = ReturnsFact result \<longrightarrow>
            map_option guessCountry
              (roundLocations (fst (snd (getCountryFromCoordinates svc pg la lo True s)))
                 (keyAtArrival pg s)) = Some (Some (cd_country result))) \<and>
         (\<forall>ov. overrideForRecord rd' = Some ov \<longrightarrow>
            roundLocations (handleRoundEnd pg' s') key =
              Some (rd'\<lparr>country := Some ''Guatemala'', countryData := Some (overrideFact ov)\<rparr>)) \<and>
         (overrideForRecord rd' = None \<and> truthy (country rd') \<longrightarrow>
            roundLocations (handleRoundEnd pg' s') key = Some rd') \<and>
         (overrideForRecord rd' = None \<and> \<not> truthy (country rd') \<and>
          \<not> truthy (extractCountryFromDOM pg') \<longrightarrow>
            roundLocations (handleRoundEnd pg' s') key = Some rd') \<and>
         (overrideForRecord rd' = None \<and> \<not> truthy (country rd') \<and>
          truthy (extractCountryFromDOM pg') \<longrightarrow>
            map_option country (roundLocations (handleRoundEnd pg' s') key) =
              Some (extractCountryFromDOM pg') \<and>
            map_option guessCountry (roundLocations (handleRoundEnd pg' s') key) =
              Some (case guessInResultElements pg' of
                      None \<Rightarrow> guessCountry rd'
                    | Some g \<Rightarrow> Some g))"
proof (intro conjI impI allI)
  assume "fst (getCountryFromCoordinates svc pg la lo False s) = ReturnsFact result"
  then show "map_option country
              (roundLocations (fst (snd (getCountryFromCoordinates svc pg la lo False s)))
                 (keyAtArrival pg s)) = Some (Some (cd_country result))"
    using recordCountryResult_country [OF assms(1), of result]
    by (simp only: getCountryFromCoordinates_fact)
next
  assume "fst (getCountryFromCoordinates svc pg la lo True s) = ReturnsFact result"
  then show "map_option guessCountry
              (roundLocations (fst (snd (getCountryFromCoordinates svc pg la lo True s)))
                 (keyAtArrival pg s)) = Some (Some (cd_country result))"
    using recordCountryResult_guessCountry [OF assms(1), of result]
    by (simp only: getCountryFromCoordinates_fact)
next
  fix ov
  assume "overrideForRecord rd' = Some ov"
  with assms(2,3) show "roundLocations (handleRoundEnd pg' s') key =
              Some (rd'\<lparr>country := Some ''Guatemala'', countryData := Some (overrideFact ov)\<rparr>)"
    by (rule handleRoundEnd_override)
next
  assume "overrideForRecord rd' = None \<and> truthy (country rd')"
  then show "roundLocations (handleRoundEnd pg' s') key = Some rd'"
    using handleRoundEnd_no_override [OF assms(2,3)] by simp
next
  assume "overrideForRecord rd' = None \<and> \<not> truthy (country rd') \<and>
          \<not> truthy (extractCountryFromDOM pg')"
  then show "roundLocations (handleRoundEnd pg' s') key = Some rd'"
    using handleRoundEnd_no_text [OF assms(2,3)] by simp
next
  assume a: "overrideForRecord rd' = None \<and> \<not> truthy (country rd') \<and>
          truthy (extractCountryFromDOM pg')"
  then show "map_option country (roundLocations (handleRoundEnd pg' s') key) =
              Some (extractCountryFromDOM pg')"
    using handleRoundEnd_text [OF assms(2,3)] by simp
  from a show "map_option guessCountry (roundLocations (handleRoundEnd pg' s') key) =
              Some (case guessInResultElements pg' of
                      None \<Rightarrow> guessCountry rd'
                    | Some g \<Rightarrow> Some g)"
    using handleRoundEnd_text [OF assms(2,3)] by simp
qed



lemma resolveGeocode_ocean:
  "fst (resolveGeocode oceanServices pg c isGuess s) =
     ReturnsFact \<lparr>cd_country = ''Australia'', countryCode = None, cd_state = None, city = None,
                  additionalInfo = Some unknownInfo\<rparr>"
  by (simp add: resolveGeocode_def reverseGeocode_ocean split: prod.split)

lemma checkCountryOverride_elsewhere:
  "checkCountryOverride (Num 10) (Num 20) = None"
  "checkCountryOverride (Num 41.5) (Num (- 67.5)) = None"
proof -
  have d: "roundDouble (10 - 5767407927375691 / 2 ^ 47) = Num (- (4360033043822411 / 2 ^ 47))"
    "roundDouble (41.5 - 5767407927375691 / 2 ^ 47) = Num (73197839370421 / 2 ^ 47)"
    by (simp_all add: roundDouble_def binaryExponent_def expUp.simps expDown.simps pow2_def
        roundHalfEven_def Let_def)
  show "checkCountryOverride (Num 10) (Num 20) = None"
    unfolding checkCountryOverride_def override_table overrideLoop.simps withinTolerance_def
      guatemalaOverride_facts jsSub.simps d
    by simp
  show "checkCountryOverride (Num 41.5) (Num (- 67.5)) = None"
    unfolding checkCountryOverride_def override_table overrideLoop.simps withinTolerance_def
      guatemalaOverride_facts jsSub.simps d
    by simp
qed

theorem country_merge_last_writer_witness:
  "map_option country
     (roundLocations
        (fst (snd (getCountryFromCoordinates oceanServices (samplePage ''g-round-1'') (Num 10) (Num 20)
                     False (stateWith ''g-round-1'' (newRoundRecord\<lparr>country := Some ''Guatemala''\<rparr>)))))
        ''g-round-1'') = Some (Some ''Australia'') \<and>
   roundLocations
     (handleRoundEnd ((samplePage ''g-round-1'')\<lparr>extractCountryFromDOM := Some ''Brazil''\<rparr>)
        (stateWith ''g-round-1'' (newRoundRecord\<lparr>country := Some ''Peru''\<rparr>)))
     ''g-round-1'' = Some (newRoundRecord\<lparr>country := Some ''Peru''\<rparr>) \<and>
   map_option country
     (roundLocations
        (handleRoundEnd (samplePage ''g-round-1'')
           (stateWith ''g-round-1''
              (newRoundRecord\<lparr>country := Some ''Australia'',
                              location := Some \<lparr>lat = roundDouble 40.97989806962013,
                                                 lng = Num (- 67.5)\<rparr>\<rparr>)))
        ''g-round-1'') = Some (Some ''Guatemala'') \<and>
   map_option guessCountry
     (roundLocations
        (handleRoundEnd ((samplePage ''g-round-1'')\<lparr>extractCountryFromDOM := Some ''Brazil'',
                                                   guessInResultElements := Some ''Peru''\<rparr>)
           (stateWith ''g-round-1'' (newRoundRecord\<lparr>guessCountry := Some ''Chile''\<rparr>)))
        ''g-round-1'') = Some (Some ''Peru'')"
proof -
  let ?k = "''g-round-1''"
  let ?ra = "newRoundRecord\<lparr>country := Some ''Guatemala''\<rparr>"
  let ?sa = "stateWith ?k ?ra"
  let ?rb = "newRoundRecord\<lparr>country := Some ''Peru''\<rparr>"
  let ?rc = "newRoundRecord\<lparr>country := Some ''Australia'',
                              location := Some \<lparr>lat = roundDouble 40.97989806962013,
                                                 lng = Num (- 67.5)\<rparr>\<rparr>"
  let ?rd = "newRoundRecord\<lparr>guessCountry := Some ''Chile''\<rparr>"
  let ?pb = "(samplePage ?k)\<lparr>extractCountryFromDOM := Some ''Brazil''\<rparr>"
  let ?pd = "(samplePage ?k)\<lparr>extractCountryFromDOM := Some ''Brazil'',
                               guessInResultElements := Some ''Peru''\<rparr>"
  let ?f = "\<lparr>cd_country = ''Australia'', countryCode = None, cd_state = None, city = None,
             additionalInfo = Some unknownInfo\<rparr>"
  have ka: "keyAtArrival (samplePage ?k) ?sa = ?k" and ra: "roundLocations ?sa ?k = Some ?ra"
    by (simp_all add: stateWith_facts)
  have san: "sanitizeCoordinates (Num 10) (Num 20) = Some \<lparr>lat = Num 10, lng = Num 20\<rparr>"
    by (rule sanitize_in_range) simp_all
  have fa: "fst (getCountryFromCoordinates oceanServices (samplePage ?k) (Num 10) (Num 20) False ?sa) =
            ReturnsFact ?f"
    by (simp only: getCountryFromCoordinates_no_override [OF san checkCountryOverride_elsewhere(1)]
        resolveGeocode_ocean)
  have nb: "overrideForRecord ?rb = None"
    by (simp add: overrideForRecord_def isValidCoordinate_def newRoundRecord_def)
  have tb: "truthy (country ?rb)"
    by (simp add: truthy_def)
  have hc: "overrideForRecord ?rc = Some guatemalaOverride"
    using checkCountryOverride_centre unfolding override_literals
    by (simp add: overrideForRecord_def isValidCoordinate_def newRoundRecord_def isNaN_def)
  have nd: "overrideForRecord ?rd = None"
    by (simp add: overrideForRecord_def isValidCoordinate_def newRoundRecord_def)
  have td: "\<not> truthy (country ?rd)"
    by (simp add: truthy_def newRoundRecord_def)
  have 1: "map_option country
     (roundLocations
        (fst (snd (getCountryFromCoordinates oceanServices (samplePage ?k) (Num 10) (Num 20) False ?sa)))
        ?k) = Some (Some ''Australia'')"
    using country_merge_last_writer
      [of ?sa "samplePage ?k" ?ra ?pb ?k "stateWith ?k ?rb" ?rb oceanServices "Num 10" "Num 20" ?f]
      fa
    by (simp add: ka stateWith_facts samplePage_def)
  have 2: "roundLocations (handleRoundEnd ?pb (stateWith ?k ?rb)) ?k = Some ?rb"
    using country_merge_last_writer
      [of ?sa "samplePage ?k" ?ra ?pb ?k "stateWith ?k ?rb" ?rb] nb tb
    by (simp add: ka stateWith_facts samplePage_def)
  have 3: "map_option country (roundLocations (handleRoundEnd (samplePage ?k) (stateWith ?k ?rc)) ?k) =
           Some (Some ''Guatemala'')"
    using country_merge_last_writer
      [of ?sa "samplePage ?k" ?ra "samplePage ?k" ?k "stateWith ?k ?rc" ?rc] hc
    by (simp add: ka stateWith_facts samplePage_def)
  have 4: "map_option guessCountry (roundLocations (handleRoundEnd ?pd (stateWith ?k ?rd)) ?k) =
           Some (Some ''Peru'')"
    using country_merge_last_writer
      [of ?sa "samplePage ?k" ?ra ?pd ?k "stateWith ?k ?rd" ?rd] nd td
    by (simp add: ka stateWith_facts samplePage_def truthy_def)
  from 1 2 3 4 show ?thesis by (intro conjI)
qed

text \<open>
  The claim as stated fails: an actual country set from the override table, the
  highest rank, is replaced by the reverse geocoder's answer for a later coordinate of
  the same round that lies outside the entry's tolerance.
\<close>

theorem geocoder_replaces_override_counterexample:
  "map_option country
     (roundLocations
        (fst (snd (getCountryFromCoordinates oceanServices (samplePage ''g-round-1'')
                     (roundDouble 40.97989806962013) (Num (- 67.5)) False
                     (stateWith ''g-round-1'' newRoundRecord))))
        ''g-round-1'') = Some (Some ''Guatemala'') \<and>
   map_option country
     (roundLocations
        (fst (snd (getCountryFromCoordinates oceanServices (samplePage ''g-round-1'')
                     (Num 41.5) (Num (- 67.5)) False
                     (fst (snd (getCountryFromCoordinates oceanServices (samplePage ''g-round-1'')
                                  (roundDouble 40.97989806962013) (Num (- 67.5)) False
                                  (stateWith ''g-round-1'' newRoundRecord)))))))
        ''g-round-1'') = Some (Some ''Australia'')"
proof -
  let ?k = "''g-round-1''"
  let ?pg = "samplePage ?k"
  let ?s0 = "stateWith ?k newRoundRecord"
  let ?l = "roundDouble 40.97989806962013"
  let ?f = "\<lparr>cd_country = ''Australia'', countryCode = None, cd_state = None, city = None,
             additionalInfo = Some unknownInfo\<rparr>"
  obtain c1 where c1: "sanitizeCoordinates ?l (Num (- 67.5)) = Some c1"
    unfolding override_literals by (simp add: sanitizeCoordinates_def isNaN_def)
  have c2: "sanitizeCoordinates (Num 41.5) (Num (- 67.5)) = Some \<lparr>lat = Num 41.5, lng = Num (- 67.5)\<rparr>"
    by (rule sanitize_in_range) simp_all
  have name: "ov_country guatemalaOverride = ''Guatemala''"
    by (rule guatemalaOverride_facts)
  define s1 where "s1 = processCountryOverride guatemalaOverride None ?s0"
  have step1: "getCountryFromCoordinates oceanServices ?pg ?l (Num (- 67.5)) False ?s0 =
               (ReturnsUndefined, s1, [])"
    unfolding s1_def using c1 checkCountryOverride_centre by (rule getCountryFromCoordinates_override)
  have r1: "roundLocations s1 ?k =
            Some (newRoundRecord\<lparr>country := Some ''Guatemala'',
                                  countryData := Some (overrideFact guatemalaOverride)\<rparr>)"
    unfolding s1_def name [symmetric]
    by (rule processCountryOverride_record) (simp_all add: stateWith_facts)
  have k1: "keyAtArrival ?pg s1 = ?k"
    by (simp add: s1_def keyAtArrival_def processCountryOverride_def Let_def stateWith_def truthy_def)
  have e1: "fst (snd (getCountryFromCoordinates oceanServices ?pg ?l (Num (- 67.5)) False ?s0)) = s1"
    by (simp only: step1 fst_conv snd_conv)
  have f2: "fst (getCountryFromCoordinates oceanServices ?pg (Num 41.5) (Num (- 67.5)) False s1) =
            ReturnsFact ?f"
    by (simp only: getCountryFromCoordinates_no_override [OF c2 checkCountryOverride_elsewhere(2)]
        resolveGeocode_ocean)
  have e2: "fst (snd (getCountryFromCoordinates oceanServices ?pg (Num 41.5) (Num (- 67.5)) False s1)) =
            fst (recordCountryResult ?pg ?f False s1)"
    using f2 by (rule getCountryFromCoordinates_fact)
  have "map_option country (roundLocations (fst (recordCountryResult ?pg ?f False s1)) (keyAtArrival ?pg s1)) =
        Some (Some (cd_country ?f))"
    using r1 by (intro recordCountryResult_country) (simp add: k1)
  then have r2: "map_option country (roundLocations (fst (recordCountryResult ?pg ?f False s1)) ?k) =
                 Some (Some ''Australia'')"
    by (simp add: k1)
  show ?thesis
    unfolding e1 e2 using r1 r2 by simp
qed

subsection \<open>The card compiler\<close>

lemma getSingleDistinctiveClue_record:
  "k \<noteq> [] \<Longrightarrow> roundLocations s k = Some rd \<Longrightarrow>
   getSingleDistinctiveClue (Some k) s =
     (case distinctiveFromClues rd of
        Some d \<Rightarrow> d
      | None \<Rightarrow> (case distinctiveFromDrivingSide rd of
                   Some d \<Rightarrow> d
                 | None \<Rightarrow> ''distinctive local features''))"
  by (simp add: getSingleDistinctiveClue_def resolveRoundKey_def truthy_def)

lemma cardBack_inputs:
  assumes "k \<noteq> []" and "roundLocations s1 k = Some rd" and "roundLocations s2 k = Some rd"
    and "userMissedClues s1 = userMissedClues s2" and "userReminder s1 = userReminder s2"
  shows "cardBack G u link k rd s1 = cardBack G u link k rd s2"
  unfolding cardBack_def
  by (simp only: getSingleDistinctiveClue_record [OF assms(1,2)]
      getSingleDistinctiveClue_record [OF assms(1,3)] assms(4,5))

lemma cardFields_inputs:
  assumes "k \<noteq> []" and "roundLocations s1 k = Some rd" and "roundLocations s2 k = Some rd"
    and "userMissedClues s1 = userMissedClues s2" and "userReminder s1 = userReminder s2"
  shows "cardFields G H hide u k rd s1 = cardFields G H hide u k rd s2"
  unfolding cardFields_def
  by (simp only: cardBack_inputs [OF assms])

text \<open>
  Claim C8. The card that \<open>buildAnkiCardData\<close> (version 1.0.0) compiles is determined
  by the current round's key and record, the two user-override fields and the
  setting: two states that agree on these give the same card, front and back,
  whatever else they hold. The same holds for the regular path of version 1.1.0
  (\<open>useDefaults\<close> false), whatever the page shows.
\<close>

theorem card_depends_only_on_its_inputs:
  assumes "currentRoundKey s1 = currentRoundKey s2"
    and "roundLocations s1 (str (currentRoundKey s1)) = roundLocations s2 (str (currentRoundKey s1))"
    and "userMissedClues s1 = userMissedClues s2" and "userReminder s1 = userReminder s2"
  shows "buildAnkiCardData H hide s1 = buildAnkiCardData H hide s2 \<and>
         fst (buildAnkiCardDataV11 H hide pg1 False s1) =
           fst (buildAnkiCardDataV11 H hide pg2 False s2)"
proof (cases "truthy (currentRoundKey s1)")
  case False
  then show ?thesis
    using assms(1) by (simp add: buildAnkiCardData_def buildAnkiCardDataV11_def)
next
  case True
  define k where "k = str (currentRoundKey s1)"
  have k: "k \<noteq> []"
    using True by (cases "currentRoundKey s1") (simp_all add: truthy_def k_def str_def)
  have k2: "str (currentRoundKey s2) = k"
    using assms(1) by (simp add: k_def)
  show ?thesis
  proof (cases "roundLocations s1 k")
    case None
    with assms(2) have "roundLocations s2 k = None" by (simp add: k_def)
    with None True assms(1) show ?thesis
      by (simp add: buildAnkiCardData_def buildAnkiCardDataV11_def k_def [symmetric] k2 Let_def)
  next
    case (Some rd)
    with assms(2) have r2: "roundLocations s2 k = Some rd" by (simp add: k_def)
    have "cardFields G H hide False k rd s1 = cardFields G H hide False k rd s2" for G
      using k Some r2 assms(3,4) by (rule cardFields_inputs)
    with Some r2 True assms(1) show ?thesis
      by (simp add: buildAnkiCardData_def buildAnkiCardDataV11_def k_def [symmetric] k2 Let_def)
  qed
qed


lemma cardMapsLink_no_location:
  "location rd = None \<Longrightarrow> cardMapsLink H rd = ''#''"
  by (simp add: cardMapsLink_def isValidCoordinate_def)

theorem card_depends_only_on_its_inputs_witness:
  "buildAnkiCardData sampleHost True
     (stateWith ''g-round-1''
        (sampleRound (sampleFact ''France'' unknownInfo) (sampleFact ''Spain'' unknownInfo))) =
   buildAnkiCardData sampleHost True
     ((stateWith ''g-round-1''
        (sampleRound (sampleFact ''France'' unknownInfo) (sampleFact ''Spain'' unknownInfo)))
      \<lparr>gs_score := Some (Num 4321), actualCountry := Some ''Chile'',
       cardCreatedForRound := True\<rparr>) \<and>
   map_option frontField
     (buildAnkiCardData sampleHost True
        (stateWith ''g-round-1''
           (sampleRound (sampleFact ''France'' unknownInfo) (sampleFact ''Spain'' unknownInfo)))) =
   Some (''You guessed Spain, but the correct answer was France. What clues did you miss? '' @
         emojiGlobe glyphsV10)"
proof -
  let ?r = "sampleRound (sampleFact ''France'' unknownInfo) (sampleFact ''Spain'' unknownInfo)"
  let ?s1 = "stateWith ''g-round-1'' ?r"
  let ?s2 = "?s1\<lparr>gs_score := Some (Num 4321), actualCountry := Some ''Chile'',
       cardCreatedForRound := True\<rparr>"
  have 1: "buildAnkiCardData sampleHost True ?s1 = buildAnkiCardData sampleHost True ?s2"
    using card_depends_only_on_its_inputs [of ?s1 ?s2 sampleHost True]
    by (simp add: stateWith_def)
  have loc: "location ?r = None"
    by (simp add: sampleRound_def newRoundRecord_def)
  have "buildAnkiCardData sampleHost True ?s1 =
        Some (cardFields glyphsV10 sampleHost True False ''g-round-1'' ?r ?s1)"
    by (simp add: buildAnkiCardData_def stateWith_facts truthy_def str_def sample_facts Let_def)
  then have 2: "map_option frontField (buildAnkiCardData sampleHost True ?s1) =
     Some (''You guessed Spain, but the correct answer was France. What clues did you miss? '' @
         emojiGlobe glyphsV10)"
    by (simp add: cardFields_def cardMapsLink_no_location [OF loc] cardFront_def sample_facts
        str_def Let_def)
  from 1 2 show ?thesis by (rule conjI)
qed

subsection \<open>Cards without an actual country\<close>

lemma fillDefaults_country:
  "\<not> truthy (country rd) \<Longrightarrow>
   country (fst (fillDefaults pg k rd s)) =
     Some (if truthy (extractCountryFromDOM pg) then str (extractCountryFromDOM pg)
           else ''Unknown Country'')"
  by (simp add: fillDefaults_def Let_def)

text \<open>
  Claim C4, as the code has it. When the current round's record has no actual country,
  \<open>buildAnkiCardData\<close> of version 1.0.0 and the regular path of version 1.1.0
  (\<open>useDefaults\<close> false) return \<open>null\<close> and leave the state as it is. The instant-add
  path of version 1.1.0 (\<open>useDefaults\<close> true) does not refuse: it builds a card whose
  actual country is the country read from the page or, when there is none, the
  placeholder \<open>Unknown Country\<close>.
\<close>

theorem card_refused_without_actual_country:
  assumes "currentRoundKey s = Some k" and "k \<noteq> []" and "roundLocations s k = Some rd"
    and "\<not> truthy (country rd)"
  shows "buildAnkiCardData H hide s = None \<and>
         buildAnkiCardDataV11 H hide pg False s = (None, s) \<and>
         map_option card_actualCountry (fst (buildAnkiCardDataV11 H hide pg True s)) =
           Some (if truthy (extractCountryFromDOM pg) then str (extractCountryFromDOM pg)
                 else ''Unknown Country'')"
proof (intro conjI)
  have key: "truthy (currentRoundKey s)" "str (currentRoundKey s) = k"
    using assms(1,2) by (simp_all add: truthy_def str_def)
  show "buildAnkiCardData H hide s = None"
    using assms(3,4) by (simp add: buildAnkiCardData_def key Let_def)
  show "buildAnkiCardDataV11 H hide pg False s = (None, s)"
    using assms(3,4) by (simp add: buildAnkiCardDataV11_def key Let_def)
  obtain rd' s' where f: "fillDefaults pg k rd s = (rd', s')"
    by (cases "fillDefaults pg k rd s")
  have c: "country rd' =
     Some (if truthy (extractCountryFromDOM pg) then str (extractCountryFromDOM pg)
           else ''Unknown Country'')"
    using fillDefaults_country [OF assms(4), of pg k s] by (simp add: f)
  have "fst (buildAnkiCardDataV11 H hide pg True s) = Some (cardFields glyphsV11 H hide True k rd' s')"
    using assms(3) by (simp add: buildAnkiCardDataV11_def key Let_def f)
  then show "map_option card_actualCountry (fst (buildAnkiCardDataV11 H hide pg True s)) =
           Some (if truthy (extractCountryFromDOM pg) then str (extractCountryFromDOM pg)
                 else ''Unknown Country'')"
    by (simp add: cardFields_def Let_def c str_def)
qed

theorem card_refused_without_actual_country_witness:
  "buildAnkiCardData sampleHost True
     (stateWith ''g-round-1'' (newRoundRecord\<lparr>guessCountry := Some ''Spain''\<rparr>)) = None \<and>
   fst (buildAnkiCardDataV11 sampleHost True (samplePage ''g-round-1'') False
     (stateWith ''g-round-1'' (newRoundRecord\<lparr>guessCountry := Some ''Spain''\<rparr>))) = None \<and>
   map_option card_actualCountry
     (fst (buildAnkiCardDataV11 sampleHost True
             ((samplePage ''g-round-1'')\<lparr>extractCountryFromDOM := Some ''Portugal''\<rparr>) True
             (stateWith ''g-round-1'' (newRoundRecord\<lparr>guessCountry := Some ''Spain''\<rparr>)))) =
     Some ''Portugal''"
proof -
  let ?rd = "newRoundRecord\<lparr>guessCountry := Some ''Spain''\<rparr>"
  let ?s = "stateWith ''g-round-1'' ?rd"
  have nt: "\<not> truthy (country ?rd)"
    by (simp add: newRoundRecord_def truthy_def)
  have k: "currentRoundKey ?s = Some ''g-round-1''" and ne: "''g-round-1'' \<noteq> []"
    and r: "roundLocations ?s ''g-round-1'' = Some ?rd"
    by (simp_all add: stateWith_facts)
  from card_refused_without_actual_country [OF k ne r nt, of sampleHost True "samplePage ''g-round-1''"]
  have 1: "buildAnkiCardData sampleHost True ?s = None"
    and 2: "fst (buildAnkiCardDataV11 sampleHost True (samplePage ''g-round-1'') False ?s) = None"
    by simp_all
  from card_refused_without_actual_country [OF k ne r nt, of sampleHost True
      "(samplePage ''g-round-1'')\<lparr>extractCountryFromDOM := Some ''Portugal''\<rparr>"]
  have 3: "map_option card_actualCountry
     (fst (buildAnkiCardDataV11 sampleHost True
             ((samplePage ''g-round-1'')\<lparr>extractCountryFromDOM := Some ''Portugal''\<rparr>) True ?s)) =
     Some ''Portugal''"
    by (simp add: truthy_def str_def)
  from 1 2 3 show ?thesis by (intro conjI)
qed

text \<open>
  The claim as stated fails on the instant-add path: for a record without a country
  and a page without country text, a card is built that names \<open>Unknown Country\<close> as the
  correct answer.
\<close>

theorem instant_add_fabricates_country_counterexample:
  "country newRoundRecord = None \<and>
   extractCountryFromDOM (samplePage ''g-round-1'') = None \<and>
   map_option card_actualCountry
     (fst (buildAnkiCardDataV11 sampleHost True (samplePage ''g-round-1'') True
             (stateWith ''g-round-1'' newRoundRecord))) = Some ''Unknown Country'' \<and>
   map_option frontField
     (fst (buildAnkiCardDataV11 sampleHost True (samplePage ''g-round-1'') True
             (stateWith ''g-round-1'' newRoundRecord))) =
     Some (''You guessed Unknown Guess, but the correct answer was Unknown Country. '' @
           ''What clues did you miss? '' @ emojiGlobe glyphsV11)"
proof -
  let ?s = "stateWith ''g-round-1'' newRoundRecord"
  let ?pg = "samplePage ''g-round-1''"
  let ?rd = "newRoundRecord\<lparr>country := Some ''Unknown Country'', guessCountry := Some ''Unknown Guess''\<rparr>"
  have a: "country newRoundRecord = None"
    by (simp add: newRoundRecord_def)
  have b: "extractCountryFromDOM ?pg = None"
    by (simp add: samplePage_def)
  obtain s' where f: "fillDefaults ?pg ''g-round-1'' newRoundRecord ?s = (?rd, s')"
    by (simp add: fillDefaults_def Let_def b truthy_def newRoundRecord_def)
  have "fst (buildAnkiCardDataV11 sampleHost True ?pg True ?s) =
        Some (cardFields glyphsV11 sampleHost True True ''g-round-1'' ?rd s')"
    by (simp add: buildAnkiCardDataV11_def stateWith_facts truthy_def str_def Let_def f)
  moreover have "location ?rd = None"
    by (simp add: newRoundRecord_def)
  ultimately have c: "map_option card_actualCountry
     (fst (buildAnkiCardDataV11 sampleHost True ?pg True ?s)) = Some ''Unknown Country''"
    and d: "map_option frontField
     (fst (buildAnkiCardDataV11 sampleHost True ?pg True ?s)) =
     Some (''You guessed Unknown Guess, but the correct answer was Unknown Country. '' @
           ''What clues did you miss? '' @ emojiGlobe glyphsV11)"
    by (simp_all add: cardFields_def cardMapsLink_no_location cardFront_def str_def Let_def)
  from a b c d show ?thesis by (intro conjI)
qed

end
